theory Spec2Isabelle
  imports Complex_Main "HOL-Library.AList"
begin
section \<open>Python values, errors and string operations\<close>

text \<open>
  The scripts are Python. Exceptions are values of the type \<open>error\<close>; a computation that
  may raise returns \<open>error + 'a\<close> with \<open>Inl\<close> for the exception. Strings are
  \<open>string\<close> (lists of 8-bit characters): the case mapping and the white-space test
  below are Python's on ASCII text, which is what all templates of the generator are.
\<close>

datatype error = AttributeError | IndexError | KeyError | NameError | PermissionError

definition bind :: "error + 'a \<Rightarrow> ('a \<Rightarrow> error + 'b) \<Rightarrow> error + 'b" where
  "bind m f = (case m of Inl e \<Rightarrow> Inl e | Inr x \<Rightarrow> f x)"

definition lower_char :: "char \<Rightarrow> char" where
  "lower_char c =
     (case map_of (zip ''ABCDEFGHIJKLMNOPQRSTUVWXYZ'' ''abcdefghijklmnopqrstuvwxyz'') c of
        Some d \<Rightarrow> d | None \<Rightarrow> c)"

definition upper_char :: "char \<Rightarrow> char" where
  "upper_char c =
     (case map_of (zip ''abcdefghijklmnopqrstuvwxyz'' ''ABCDEFGHIJKLMNOPQRSTUVWXYZ'') c of
        Some d \<Rightarrow> d | None \<Rightarrow> c)"

definition py_lower :: "string \<Rightarrow> string" where
  \<comment> \<open>\<open>s.lower()\<close>\<close>
  "py_lower s = map lower_char s"

definition capitalize :: "string \<Rightarrow> string" where
  \<comment> \<open>\<open>s.capitalize()\<close>: first character upper case, the rest lower case\<close>
  "capitalize s = (case s of [] \<Rightarrow> [] | c # cs \<Rightarrow> upper_char c # map lower_char cs)"

definition is_space :: "char \<Rightarrow> bool" where
  \<comment> \<open>the ASCII characters for which \<open>str.isspace\<close> holds\<close>
  "is_space c =
     (c \<in> set [CHR 0x09, CHR 0x0A, CHR 0x0B, CHR 0x0C, CHR 0x0D,
                CHR 0x1C, CHR 0x1D, CHR 0x1E, CHR 0x1F, CHR 0x20])"

definition startswith :: "string \<Rightarrow> string \<Rightarrow> bool" where
  \<comment> \<open>\<open>s.startswith(p)\<close>\<close>
  "startswith s p = (take (length p) s = p)"

definition endswith :: "string \<Rightarrow> string \<Rightarrow> bool" where
  \<comment> \<open>\<open>s.endswith(p)\<close>\<close>
  "endswith s p = startswith (rev s) (rev p)"

fun contains :: "string \<Rightarrow> string \<Rightarrow> bool" where
  \<comment> \<open>\<open>sub in s\<close> for strings: \<open>contains sub s\<close>\<close>
  "contains sub [] = (sub = [])"
| "contains sub (c # cs) = (startswith (c # cs) sub \<or> contains sub cs)"

fun split_char :: "char \<Rightarrow> string \<Rightarrow> string list" where
  \<comment> \<open>\<open>s.split(sep)\<close> for a one-character separator\<close>
  "split_char sep [] = [[]]"
| "split_char sep (c # cs) =
     (if c = sep then [] # split_char sep cs
      else (case split_char sep cs of [] \<Rightarrow> [[c]] | w # ws \<Rightarrow> (c # w) # ws))"

fun words_from :: "string \<Rightarrow> string \<Rightarrow> string list" where
  "words_from cur [] = (if cur = [] then [] else [cur])"
| "words_from cur (c # cs) =
     (if is_space c then (if cur = [] then words_from [] cs else cur # words_from [] cs)
      else words_from (cur @ [c]) cs)"

definition split_ws :: "string \<Rightarrow> string list" where
  \<comment> \<open>\<open>s.split()\<close>: the maximal runs of non-space characters\<close>
  "split_ws s = words_from [] s"

definition strip :: "string \<Rightarrow> string" where
  \<comment> \<open>\<open>s.strip()\<close>\<close>
  "strip s = rev (dropWhile is_space (rev (dropWhile is_space s)))"

function replace :: "string \<Rightarrow> string \<Rightarrow> string \<Rightarrow> string" where
  \<comment> \<open>\<open>s.replace(old, new)\<close> for a non-empty \<open>old\<close>: \<open>replace old new s\<close>\<close>
  "replace old new [] = []"
| "replace old new (c # cs) =
     (if old \<noteq> [] \<and> startswith (c # cs) old
      then new @ replace old new (drop (length old) (c # cs))
      else c # replace old new cs)"
  by pat_completeness auto
termination
  by (relation "measure (\<lambda>(old, new, s). length s)") auto

definition py_index :: "'a list \<Rightarrow> int \<Rightarrow> error + 'a" where
  \<comment> \<open>\<open>xs[i]\<close>: a negative index counts from the end, out of range raises IndexError\<close>
  "py_index xs i =
     (if 0 \<le> i \<and> i < int (length xs) then Inr (xs ! nat i)
      else if i < 0 \<and> - i \<le> int (length xs) then Inr (xs ! nat (int (length xs) + i))
      else Inl IndexError)"

section \<open>The example generator (\<open>regenerate_dataset.py\<close>)\<close>

text \<open>
  An example is a triple (Bisaya sentence, English translation, Tagalog translation);
  \<open>generate_examples\<close> returns three of them: beginner, intermediate, advanced.
\<close>

type_synonym example = "string \<times> string \<times> string"
type_synonym examples = "example \<times> example \<times> example"

definition get_base_form :: "string \<Rightarrow> string" where
  "get_base_form word =
     (let prefixes = [''mo'', ''nag'', ''gi'', ''mag'', ''na'', ''ka'', ''maka'', ''maka-''];
          word_lower = py_lower word
      in case find (\<lambda>prefix. startswith word_lower prefix) prefixes of
           Some prefix \<Rightarrow> drop (length prefix) word_lower
         | None \<Rightarrow> word_lower)"

definition make_example :: "string \<Rightarrow> string \<Rightarrow> string \<Rightarrow> example" where
  \<comment> \<open>the helper nested in \<open>generate_examples\<close> (lines 44-48)\<close>
  "make_example bisaya_sent english_sent tagalog_sent =
     (bisaya_sent, english_sent, if tagalog_sent \<noteq> [] then tagalog_sent else [])"

definition english_clean_of :: "string \<Rightarrow> error + string" where
  \<comment> \<open>\<open>english.split('/')[0].split('(')[0].strip()\<close>\<close>
  "english_clean_of english =
     bind (py_index (split_char CHR ''/'' english) 0) (\<lambda>a.
     bind (py_index (split_char CHR ''('' a) 0) (\<lambda>b. Inr (strip b)))"

definition last_word :: "string \<Rightarrow> error + string" where
  \<comment> \<open>\<open>s.split()[-1] if len(s.split()) > 1 else ""\<close>\<close>
  "last_word s = (if length (split_ws s) > 1 then py_index (split_ws s) (- 1) else Inr [])"

text \<open>
  The cascade of \<open>generate_examples\<close> is one \<open>if\<close>/\<open>elif\<close> chain over the part of speech
  with a nested chain over the word in each branch. Each nested chain is a definition of
  its own here, in the order of the source; the templates that interpolate the entry's
  own words come first, since the chains end in them.
\<close>

subsection \<open>Greetings and expressions (lines 50-95)\<close>

definition maayong_examples :: "string \<Rightarrow> string \<Rightarrow> string \<Rightarrow> error + examples" where
  \<comment> \<open>lines 57-69\<close>
  "maayong_examples bisaya tagalog english =
     bind (py_index (split_char CHR ''/'' english) 0) (\<lambda>e0.
     let eng_clean = strip e0;
         tag_clean = (if tagalog \<noteq> [] then tagalog else [])
     in bind (last_word bisaya) (\<lambda>bw.
        bind (last_word eng_clean) (\<lambda>ew.
        Inr (make_example (bisaya @ ''.'') (eng_clean @ ''.'')
               (if tag_clean \<noteq> [] then tag_clean @ ''.'' else []),
             make_example (''Maayong '' @ bw @ '' sa tanan!'') (''Good '' @ ew @ '' to everyone!'')
               (if tag_clean \<noteq> [] then tag_clean @ '' sa lahat!'' else []),
             make_example (''Maayong '' @ bw @ ''! Kumusta ang imong adlaw?'') (''Good '' @ ew @ ''! How is your day?'')
               (if tag_clean \<noteq> [] then tag_clean @ ''! Kumusta ang iyong araw?'' else [])))))"

definition phrase_examples :: "string \<Rightarrow> string \<Rightarrow> string \<Rightarrow> examples" where
  \<comment> \<open>lines 93-95, and again lines 339-341\<close>
  "phrase_examples bisaya eng_clean tag_clean =
     (make_example (bisaya @ ''.'') (eng_clean @ ''.'')
        (if tag_clean \<noteq> [] then tag_clean @ ''.'' else []),
      make_example (bisaya @ '', mahimo ba?'') (eng_clean @ '', is it possible?'')
        (if tag_clean \<noteq> [] then tag_clean @ '', posible ba?'' else []),
      make_example (bisaya @ '', mahimo ba nimo ko tabangan?'') (eng_clean @ '', can you help me?'')
        (if tag_clean \<noteq> [] then tag_clean @ '', maaari mo ba akong tulungan?'' else []))"

definition greeting_generic :: "string \<Rightarrow> string \<Rightarrow> string \<Rightarrow> error + examples" where
  \<comment> \<open>lines 90-95\<close>
  "greeting_generic bisaya tagalog english =
     bind (english_clean_of english) (\<lambda>eng_clean.
     let tag_clean = (if tagalog \<noteq> [] then tagalog else [])
     in Inr (phrase_examples bisaya eng_clean tag_clean))"

definition greeting_examples :: "string \<Rightarrow> string \<Rightarrow> string \<Rightarrow> error + examples" where
  "greeting_examples bisaya tagalog english =
     (let bisaya_lower = py_lower bisaya in
      if contains ''kumusta'' bisaya_lower then
        Inr (make_example ''Kumusta ka?'' ''How are you?'' ''Kumusta ka?'',
             make_example ''Kumusta na ka karon?'' ''How are you now?'' ''Kumusta ka na ngayon?'',
             make_example ''Kumusta na ka? Maayo ra ba?'' ''How are you? Are you doing well?'' ''Kumusta ka na? Mabuti ba?'')
      else if contains ''maayong'' bisaya_lower then
        maayong_examples bisaya tagalog english
      else if contains ''salamat'' bisaya_lower then
        Inr (make_example ''Salamat.'' ''Thank you.'' ''Salamat.'',
             make_example ''Daghang salamat sa imong tabang.'' ''Thank you very much for your help.'' ''Maraming salamat sa iyong tulong.'',
             make_example ''Daghang salamat kaayo sa tanan nga imong nahimo.'' ''Thank you very much for everything you did.'' ''Maraming salamat sa lahat ng iyong ginawa.'')
      else if contains ''palihug'' bisaya_lower then
        Inr (make_example ''Palihug.'' ''Please.'' ''Pakiusap.'',
             make_example ''Palihug, tabangi ko.'' ''Please, help me.'' ''Pakiusap, tulungan mo ako.'',
             make_example ''Palihug, mahimo ba nimo ko tabangan karon?'' ''Please, can you help me now?'' ''Pakiusap, maaari mo ba akong tulungan ngayon?'')
      else if contains ''pasaylo'' bisaya_lower then
        Inr (make_example ''Pasaylo.'' ''Sorry.'' ''Paumanhin.'',
             make_example ''Pasaylo sa akong nahimo.'' ''Sorry for what I did.'' ''Paumanhin sa aking ginawa.'',
             make_example ''Pasaylo kaayo sa tanan nga kasaypanan.'' ''I am very sorry for all the mistakes.'' ''Paumanhin sa lahat ng pagkakamali.'')
      else if bisaya_lower \<in> set [''oo'', ''yes''] then
        Inr (make_example ''Oo.'' ''Yes.'' ''Oo.'',
             make_example ''Oo, gusto ko.'' ''Yes, I want to.'' ''Oo, gusto ko.'',
             make_example ''Oo, sigurado ko nga gusto ko.'' ''Yes, I am sure I want to.'' ''Oo, sigurado ako na gusto ko.'')
      else if bisaya_lower \<in> set [''dili'', ''no''] then
        Inr (make_example ''Dili.'' ''No.'' ''Hindi.'',
             make_example ''Dili ko gusto.'' ''I don't want to.'' ''Ayaw ko.'',
             make_example ''Dili ko gusto nga moadto didto.'' ''I don't want to go there.'' ''Ayaw kong pumunta doon.'')
      else greeting_generic bisaya tagalog english)"

subsection \<open>Verbs (lines 97-151)\<close>

definition past_tense_of :: "string \<Rightarrow> error + string" where
  \<comment> \<open>lines 137-145\<close>
  "past_tense_of english_verb =
     (if endswith english_verb ''e'' then Inr (english_verb @ ''d'')
      else if endswith english_verb ''y'' then Inr (butlast english_verb @ ''ied'')
      else if length english_verb > 1 then
        bind (py_index english_verb (- 1)) (\<lambda>c1.
        if c1 \<notin> set ''aeiou'' then
          bind (py_index english_verb (- 2)) (\<lambda>c2.
          if c2 \<in> set ''aeiou'' then Inr (english_verb @ [c1] @ ''ed'')
          else Inr (english_verb @ ''ed''))
        else Inr (english_verb @ ''ed''))
      else Inr (english_verb @ ''ed''))"

definition verb_generic :: "string \<Rightarrow> string \<Rightarrow> string \<Rightarrow> error + examples" where
  \<comment> \<open>lines 99 and 132-151\<close>
  "verb_generic bisaya tagalog english =
     (let bisaya_lower = py_lower bisaya;
          base = get_base_form bisaya;
          base_verb = (if base \<noteq> bisaya_lower then base
                       else replace ''gi'' [] (replace ''nag'' [] (replace ''mag'' []
                              (replace ''mo'' [] bisaya_lower))))
      in bind (english_clean_of english) (\<lambda>ec.
         let english_verb = py_lower ec in
         bind (past_tense_of english_verb) (\<lambda>past_tense.
         let tag_verb = (if tagalog \<noteq> [] then py_lower tagalog else [])
         in Inr (make_example (''Gusto ko mo'' @ base_verb @ ''.'') (''I want to '' @ english_verb @ ''.'')
                   (if tag_verb \<noteq> [] then ''Gusto kong '' @ tag_verb @ ''.'' else []),
                 make_example (''Mo'' @ base_verb @ '' ko karon.'') (''I will '' @ english_verb @ '' now.'')
                   (if tag_verb \<noteq> [] then capitalize tag_verb @ '' ako ngayon.'' else []),
                 make_example (''Gi'' @ base_verb @ '' nako ang tanan ganina.'') (''I '' @ past_tense @ '' everything earlier.'')
                   (if tag_verb \<noteq> [] then capitalize tag_verb @ '' ko ang lahat kanina.'' else [])))))"

definition verb_examples :: "string \<Rightarrow> string \<Rightarrow> string \<Rightarrow> error + examples" where
  "verb_examples bisaya tagalog english =
     (let bisaya_lower = py_lower bisaya; english_lower = py_lower english in
      if contains ''kaon'' bisaya_lower \<or> contains ''eat'' english_lower then
        Inr (make_example ''Gusto ko mokaon.'' ''I want to eat.'' ''Gusto kong kumain.'',
             make_example ''Nakaon na ba ka?'' ''Have you eaten already?'' ''Kumain ka na ba?'',
             make_example ''Gikaon nako ang tinapay ganina.'' ''I ate the bread earlier.'' ''Kumain ako ng tinapay kanina.'')
      else if contains ''tulog'' bisaya_lower \<or> contains ''sleep'' english_lower then
        Inr (make_example ''Gusto ko matulog.'' ''I want to sleep.'' ''Gusto kong matulog.'',
             make_example ''Natulog na ba ka?'' ''Have you slept already?'' ''Natulog ka na ba?'',
             make_example ''Kinahanglan nga matulog ka aron makapahuway.'' ''You need to sleep to rest.'' ''Kailangan mong matulog para makapahinga.'')
      else if contains ''basa'' bisaya_lower \<or> contains ''read'' english_lower then
        Inr (make_example ''Gusto ko mobasa.'' ''I want to read.'' ''Gusto kong magbasa.'',
             make_example ''Nagbasa ko ug libro.'' ''I am reading a book.'' ''Nagbabasa ako ng libro.'',
             make_example ''Gibasa nako ang libro ganina.'' ''I read the book earlier.'' ''Binasa ko ang libro kanina.'')
      else if contains ''sulat'' bisaya_lower \<or> contains ''write'' english_lower then
        Inr (make_example ''Gusto ko mosulat.'' ''I want to write.'' ''Gusto kong sumulat.'',
             make_example ''Nagsulat ko ug sulat.'' ''I am writing a letter.'' ''Nagsusulat ako ng sulat.'',
             make_example ''Gisulat nako ang sulat kagahapon.'' ''I wrote the letter yesterday.'' ''Sinulat ko ang sulat kahapon.'')
      else if contains ''palit'' bisaya_lower \<or> contains ''buy'' english_lower then
        Inr (make_example ''Gusto ko mopalit.'' ''I want to buy.'' ''Gusto kong bumili.'',
             make_example ''Mopalit ko ug tinapay.'' ''I will buy bread.'' ''Bibili ako ng tinapay.'',
             make_example ''Gipalit nako ang tinapay sa tindahan.'' ''I bought the bread at the store.'' ''Binili ko ang tinapay sa tindahan.'')
      else if contains ''lakaw'' bisaya_lower \<or> contains ''walk'' english_lower then
        Inr (make_example ''Gusto ko molakaw.'' ''I want to walk.'' ''Gusto kong maglakad.'',
             make_example ''Naglakaw ko sa dalan.'' ''I am walking on the road.'' ''Naglalakad ako sa kalsada.'',
             make_example ''Naglakaw ko gikan sa balay padulong sa eskwelahan.'' ''I walked from home to school.'' ''Naglalakad ako mula sa bahay papunta sa paaralan.'')
      else if contains ''dagan'' bisaya_lower \<or> contains ''run'' english_lower then
        Inr (make_example ''Gusto ko modagan.'' ''I want to run.'' ''Gusto kong tumakbo.'',
             make_example ''Nagdagan ko sa parke.'' ''I am running in the park.'' ''Tumatakbo ako sa parke.'',
             make_example ''Nagdagan ko aron makab-ot ang bus.'' ''I ran to catch the bus.'' ''Tumakbo ako para mahabol ang bus.'')
      else if contains ''adto'' bisaya_lower \<or> contains ''go'' english_lower then
        Inr (make_example ''Moadto ko.'' ''I will go.'' ''Pupunta ako.'',
             make_example ''Moadto ko sa balay.'' ''I will go to the house.'' ''Pupunta ako sa bahay.'',
             make_example ''Moadto ko sa balay sa akong higala.'' ''I will go to my friend's house.'' ''Pupunta ako sa bahay ng aking kaibigan.'')
      else verb_generic bisaya tagalog english)"

subsection \<open>Nouns (lines 153-195)\<close>

definition noun_generic :: "string \<Rightarrow> string \<Rightarrow> string \<Rightarrow> error + examples" where
  \<comment> \<open>lines 179-195\<close>
  "noun_generic bisaya tagalog english =
     (let bisaya_lower = py_lower bisaya; english_lower_check = py_lower english in
      bind (english_clean_of english) (\<lambda>ec.
      let english_clean = py_lower ec in
      if contains ''adlaw'' bisaya_lower \<or> (contains ''day'' english_lower_check \<and> contains ''sun'' english_lower_check) then
        Inr (make_example ''Maayong adlaw.'' ''Good day.'' ''Magandang araw.'',
             make_example ''Init kaayo ang adlaw karon.'' ''The sun is very hot today.'' ''Napakainit ng araw ngayon.'',
             make_example ''Ang adlaw nga nag-init sa balay kay init kaayo.'' ''The sun that heats the house is very hot.'' ''Ang araw na nagpapainit sa bahay ay napakainit.'')
      else if contains ''bulan'' bisaya_lower \<or> (contains ''month'' english_lower_check \<and> contains ''moon'' english_lower_check) then
        Inr (make_example ''Maayong bulan.'' ''Good month.'' ''Magandang buwan.'',
             make_example ''Nindot kaayo ang bulan karon.'' ''The moon is very beautiful tonight.'' ''Napakaganda ng buwan ngayon.'',
             make_example ''Ang bulan nga nagdan-ag sa dalan kay nindot kaayo.'' ''The moon that lights the road is very beautiful.'' ''Ang buwan na nagliliwanag sa kalsada ay napakaganda.'')
      else (let tag_clean = (if tagalog \<noteq> [] then py_lower tagalog else [])
            in Inr (make_example (''Gusto ko ug '' @ bisaya @ ''.'') (''I want '' @ english_clean @ ''.'')
                      (if tag_clean \<noteq> [] then ''Gusto ko ng '' @ tag_clean @ ''.'' else []),
                    make_example (''Naa koy '' @ bisaya @ '' sa balay.'') (''I have '' @ english_clean @ '' at home.'')
                      (if tag_clean \<noteq> [] then ''May '' @ tag_clean @ '' ako sa bahay.'' else []),
                    make_example (''Ang '' @ bisaya @ '' nga gipalit nako kay nindot kaayo.'') (''The '' @ english_clean @ '' I bought is very beautiful.'')
                      (if tag_clean \<noteq> [] then ''Ang '' @ tag_clean @ '' na binili ko ay napakaganda.'' else [])))))"

definition noun_examples :: "string \<Rightarrow> string \<Rightarrow> string \<Rightarrow> error + examples" where
  "noun_examples bisaya tagalog english =
     (let bisaya_lower = py_lower bisaya; english_lower = py_lower english in
      if contains ''tubig'' bisaya_lower \<or> contains ''water'' english_lower then
        Inr (make_example ''Gusto ko ug tubig.'' ''I want water.'' ''Gusto ko ng tubig.'',
             make_example ''Naa koy tubig sa balay.'' ''I have water at home.'' ''May tubig ako sa bahay.'',
             make_example ''Gipalit nako ang tubig sa tindahan.'' ''I bought the water at the store.'' ''Binili ko ang tubig sa tindahan.'')
      else if contains ''pagkaon'' bisaya_lower \<or> contains ''food'' english_lower then
        Inr (make_example ''Gusto ko ug pagkaon.'' ''I want food.'' ''Gusto ko ng pagkain.'',
             make_example ''Naa koy pagkaon sa lamesa.'' ''I have food on the table.'' ''May pagkain ako sa mesa.'',
             make_example ''Gipangandam nako ang pagkaon para sa tanan.'' ''I prepared the food for everyone.'' ''Inihanda ko ang pagkain para sa lahat.'')
      else if contains ''balay'' bisaya_lower \<or> contains ''house'' english_lower then
        Inr (make_example ''Naa koy balay.'' ''I have a house.'' ''May bahay ako.'',
             make_example ''Ang balay kay dako.'' ''The house is big.'' ''Malaki ang bahay.'',
             make_example ''Ang balay nga gipalit nako kay nindot kaayo.'' ''The house I bought is very beautiful.'' ''Ang bahay na binili ko ay napakaganda.'')
      else if contains ''libro'' bisaya_lower \<or> contains ''book'' english_lower then
        Inr (make_example ''Naa koy libro.'' ''I have a book.'' ''May libro ako.'',
             make_example ''Nagbasa ko ug libro.'' ''I am reading a book.'' ''Nagbabasa ako ng libro.'',
             make_example ''Ang libro nga gibasa nako kay nindot kaayo.'' ''The book I read is very beautiful.'' ''Ang libro na binasa ko ay napakaganda.'')
      else if contains ''amahan'' bisaya_lower \<or> contains ''father'' english_lower then
        Inr (make_example ''Siya ang akong amahan.'' ''He is my father.'' ''Siya ang aking ama.'',
             make_example ''Ang akong amahan kay maayo kaayo.'' ''My father is very good.'' ''Ang aking ama ay napakabuti.'',
             make_example ''Ang akong amahan nga nagtrabaho sa opisina kay kusgan kaayo.'' ''My father who works at the office is very strong.'' ''Ang aking ama na nagtatrabaho sa opisina ay napakalakas.'')
      else if contains ''inahan'' bisaya_lower \<or> contains ''mother'' english_lower then
        Inr (make_example ''Siya ang akong inahan.'' ''She is my mother.'' ''Siya ang aking ina.'',
             make_example ''Ang akong inahan kay gwapa kaayo.'' ''My mother is very beautiful.'' ''Ang aking ina ay napakaganda.'',
             make_example ''Ang akong inahan nga nagluto sa kusina kay maayo kaayo.'' ''My mother who cooks in the kitchen is very good.'' ''Ang aking ina na nagluluto sa kusina ay napakabuti.'')
      else noun_generic bisaya tagalog english)"

subsection \<open>Adjectives (lines 197-269)\<close>

definition adjective_generic :: "string \<Rightarrow> string \<Rightarrow> string \<Rightarrow> error + examples" where
  \<comment> \<open>lines 263-269\<close>
  "adjective_generic bisaya tagalog english =
     bind (english_clean_of english) (\<lambda>ec.
     let english_clean = py_lower ec;
         tag_clean = (if tagalog \<noteq> [] then py_lower tagalog else [])
     in Inr (make_example (bisaya @ '' kaayo.'') (''Very '' @ english_clean @ ''.'')
               (if tag_clean \<noteq> [] then ''Napaka'' @ tag_clean @ ''.'' else []),
             make_example (''Ang balay kay '' @ bisaya @ '' kaayo.'') (''The house is very '' @ english_clean @ ''.'')
               (if tag_clean \<noteq> [] then ''Napaka'' @ tag_clean @ '' ng bahay.'' else []),
             make_example (''Ang balay nga gipalit nako kay '' @ bisaya @ '' kaayo.'') (''The house I bought is very '' @ english_clean @ ''.'')
               (if tag_clean \<noteq> [] then ''Ang bahay na binili ko ay napaka'' @ tag_clean @ ''.'' else [])))"

definition adjective_examples :: "string \<Rightarrow> string \<Rightarrow> string \<Rightarrow> error + examples" where
  "adjective_examples bisaya tagalog english =
     (let bisaya_lower = py_lower bisaya; english_lower = py_lower english in
      if contains ''wala'' bisaya_lower \<or> contains ''none'' english_lower \<or> contains ''nothing'' english_lower then
        Inr (make_example ''Wala ko.'' ''I have nothing.'' ''Wala ako.'',
             make_example ''Wala koy kwarta.'' ''I have no money.'' ''Wala akong pera.'',
             make_example ''Wala koy kwarta nga magasto karon.'' ''I have no money to spend now.'' ''Wala akong pera na magagastos ngayon.'')
      else if contains ''daghan'' bisaya_lower \<or> contains ''many'' english_lower \<or> contains ''much'' english_lower then
        Inr (make_example ''Daghan kaayo.'' ''A lot.'' ''Marami.'',
             make_example ''Daghan kaayo ang tawo.'' ''There are many people.'' ''Maraming tao.'',
             make_example ''Daghan kaayo ang tawo nga nakaon sa restaurant.'' ''There are many people eating at the restaurant.'' ''Maraming tao na kumakain sa restaurant.'')
      else if contains ''maayo'' bisaya_lower \<or> contains ''good'' english_lower then
        Inr (make_example ''Maayo kaayo.'' ''Very good.'' ''Napakabuti.'',
             make_example ''Ang pagkaon kay maayo kaayo.'' ''The food is very good.'' ''Napakasarap ng pagkain.'',
             make_example ''Ang pagkaon nga gipangandam nako kay maayo kaayo sa tanan.'' ''The food I prepared is very good for everyone.'' ''Ang pagkain na inihanda ko ay napakasarap para sa lahat.'')
      else if contains ''gwapa'' bisaya_lower \<or> (contains ''beautiful'' english_lower \<and> contains ''female'' english_lower) then
        Inr (make_example ''Gwapa kaayo.'' ''Very beautiful.'' ''Napakaganda.'',
             make_example ''Ang babaye kay gwapa kaayo.'' ''The woman is very beautiful.'' ''Napakaganda ng babae.'',
             make_example ''Ang babaye nga naglakaw sa dalan kay gwapa kaayo.'' ''The woman walking on the road is very beautiful.'' ''Ang babae na naglalakad sa kalsada ay napakaganda.'')
      else if contains ''gwapo'' bisaya_lower \<or> contains ''handsome'' english_lower then
        Inr (make_example ''Gwapo kaayo.'' ''Very handsome.'' ''Napakagwapo.'',
             make_example ''Ang lalaki kay gwapo kaayo.'' ''The man is very handsome.'' ''Napakagwapo ng lalaki.'',
             make_example ''Ang lalaki nga naglakaw sa dalan kay gwapo kaayo.'' ''The man walking on the road is very handsome.'' ''Ang lalaki na naglalakad sa kalsada ay napakagwapo.'')
      else if contains ''dako'' bisaya_lower \<or> contains ''big'' english_lower then
        Inr (make_example ''Dako kaayo.'' ''Very big.'' ''Napakalaki.'',
             make_example ''Ang balay kay dako kaayo.'' ''The house is very big.'' ''Napakalaki ng bahay.'',
             make_example ''Ang balay nga gipalit nako kay dako kaayo ug nindot.'' ''The house I bought is very big and beautiful.'' ''Ang bahay na binili ko ay napakalaki at napakaganda.'')
      else if contains ''gamay'' bisaya_lower \<or> contains ''small'' english_lower then
        Inr (make_example ''Gamay kaayo.'' ''Very small.'' ''Napakaliit.'',
             make_example ''Ang bata kay gamay kaayo.'' ''The child is very small.'' ''Napakaliit ng bata.'',
             make_example ''Ang bata nga nagdula sa parke kay gamay kaayo.'' ''The child playing in the park is very small.'' ''Ang bata na naglalaro sa parke ay napakaliit.'')
      else if contains ''init'' bisaya_lower \<or> contains ''hot'' english_lower then
        Inr (make_example ''Init kaayo.'' ''Very hot.'' ''Napakainit.'',
             make_example ''Ang tubig kay init kaayo.'' ''The water is very hot.'' ''Napakainit ng tubig.'',
             make_example ''Ang tubig nga gipainit nako kay init kaayo karon.'' ''The water I heated is very hot now.'' ''Ang tubig na pinainit ko ay napakainit ngayon.'')
      else if contains ''bugnaw'' bisaya_lower \<or> contains ''cold'' english_lower then
        Inr (make_example ''Bugnaw kaayo.'' ''Very cold.'' ''Napakalamig.'',
             make_example ''Ang tubig kay bugnaw kaayo.'' ''The water is very cold.'' ''Napakalamig ng tubig.'',
             make_example ''Ang tubig nga gikan sa gripo kay bugnaw kaayo.'' ''The water from the faucet is very cold.'' ''Ang tubig na galing sa gripo ay napakalamig.'')
      else if contains ''tibuok'' bisaya_lower \<or> contains ''whole'' english_lower \<or> contains ''complete'' english_lower then
        Inr (make_example ''Tibuok ang libro.'' ''The whole book.'' ''Buong libro.'',
             make_example ''Gibasa nako ang tibuok nga libro.'' ''I read the whole book.'' ''Binasa ko ang buong libro.'',
             make_example ''Gibasa nako ang tibuok nga libro sulod sa usa ka adlaw.'' ''I read the whole book within one day.'' ''Binasa ko ang buong libro sa loob ng isang araw.'')
      else if contains ''bahin'' bisaya_lower \<or> contains ''part'' english_lower then
        Inr (make_example ''Bahin lang.'' ''Just a part.'' ''Bahagi lang.'',
             make_example ''Gibasa nako ang bahin sa libro.'' ''I read part of the book.'' ''Binasa ko ang bahagi ng libro.'',
             make_example ''Gibasa nako ang bahin sa libro nga importante.'' ''I read the important part of the book.'' ''Binasa ko ang mahalagang bahagi ng libro.'')
      else if contains ''bag-o'' bisaya_lower \<or> contains ''new'' english_lower then
        Inr (make_example ''Bag-o kaayo.'' ''Very new.'' ''Napakabago.'',
             make_example ''Ang libro kay bag-o kaayo.'' ''The book is very new.'' ''Napakabago ng libro.'',
             make_example ''Ang libro nga gipalit nako kay bag-o kaayo ug nindot.'' ''The book I bought is very new and beautiful.'' ''Ang libro na binili ko ay napakabago at napakaganda.'')
      else if contains ''karaan'' bisaya_lower \<or> contains ''old'' english_lower then
        Inr (make_example ''Karaan kaayo.'' ''Very old.'' ''Napakaluma.'',
             make_example ''Ang libro kay karaan kaayo.'' ''The book is very old.'' ''Napakaluma ng libro.'',
             make_example ''Ang libro nga gikan sa library kay karaan kaayo.'' ''The book from the library is very old.'' ''Ang libro na galing sa library ay napakaluma.'')
      else if contains ''taas'' bisaya_lower \<or> contains ''tall'' english_lower \<or> contains ''high'' english_lower then
        Inr (make_example ''Taas kaayo.'' ''Very tall.'' ''Napakataas.'',
             make_example ''Ang tawo kay taas kaayo.'' ''The person is very tall.'' ''Napakataas ng tao.'',
             make_example ''Ang tawo nga naglakaw sa dalan kay taas kaayo.'' ''The person walking on the road is very tall.'' ''Ang tao na naglalakad sa kalsada ay napakataas.'')
      else if contains ''mubo'' bisaya_lower \<or> contains ''short'' english_lower \<or> contains ''low'' english_lower then
        Inr (make_example ''Mubo kaayo.'' ''Very short.'' ''Napakababa.'',
             make_example ''Ang tawo kay mubo kaayo.'' ''The person is very short.'' ''Napakababa ng tao.'',
             make_example ''Ang tawo nga naglakaw sa dalan kay mubo kaayo.'' ''The person walking on the road is very short.'' ''Ang tao na naglalakad sa kalsada ay napakababa.'')
      else if contains ''lapad'' bisaya_lower \<or> contains ''wide'' english_lower then
        Inr (make_example ''Lapad kaayo.'' ''Very wide.'' ''Napakalapad.'',
             make_example ''Ang dalan kay lapad kaayo.'' ''The road is very wide.'' ''Napakalapad ng kalsada.'',
             make_example ''Ang dalan nga gipangita nako kay lapad kaayo.'' ''The road I am looking for is very wide.'' ''Ang kalsada na hinahanap ko ay napakalapad.'')
      else adjective_generic bisaya tagalog english)"

subsection \<open>Numbers (lines 271-286)\<close>

definition number_generic :: "string \<Rightarrow> string \<Rightarrow> string \<Rightarrow> error + examples" where
  \<comment> \<open>lines 281-286\<close>
  "number_generic bisaya tagalog english =
     bind (english_clean_of english) (\<lambda>ec.
     let english_clean = py_lower ec;
         tag_clean = (if tagalog \<noteq> [] then py_lower tagalog else [])
     in Inr (make_example (''Naa koy '' @ bisaya @ '' ka libro.'') (''I have '' @ english_clean @ '' books.'')
               (if tag_clean \<noteq> [] then ''May '' @ tag_clean @ '' libro ako.'' else []),
             make_example (''Gusto ko ug '' @ bisaya @ '' ka libro.'') (''I want '' @ english_clean @ '' books.'')
               (if tag_clean \<noteq> [] then ''Gusto ko ng '' @ tag_clean @ '' libro.'' else []),
             make_example (''Gipalit nako ang '' @ bisaya @ '' ka libro sa tindahan.'') (''I bought '' @ english_clean @ '' books at the store.'')
               (if tag_clean \<noteq> [] then ''Binili ko ang '' @ tag_clean @ '' libro sa tindahan.'' else [])))"

definition number_examples :: "string \<Rightarrow> string \<Rightarrow> string \<Rightarrow> error + examples" where
  "number_examples bisaya tagalog english =
     (let bisaya_lower = py_lower bisaya; english_lower = py_lower english in
      if bisaya_lower = ''usa'' \<or> contains ''one'' english_lower then
        Inr (make_example ''Naa koy usa ka libro.'' ''I have one book.'' ''May isang libro ako.'',
             make_example ''Gusto ko ug usa ka libro.'' ''I want one book.'' ''Gusto ko ng isang libro.'',
             make_example ''Gipalit nako ang usa ka libro sa tindahan.'' ''I bought one book at the store.'' ''Binili ko ang isang libro sa tindahan.'')
      else if bisaya_lower = ''duha'' \<or> contains ''two'' english_lower then
        Inr (make_example ''Naa koy duha ka libro.'' ''I have two books.'' ''May dalawang libro ako.'',
             make_example ''Gusto ko ug duha ka libro.'' ''I want two books.'' ''Gusto ko ng dalawang libro.'',
             make_example ''Gipalit nako ang duha ka libro sa tindahan.'' ''I bought two books at the store.'' ''Binili ko ang dalawang libro sa tindahan.'')
      else number_generic bisaya tagalog english)"

subsection \<open>Time expressions (lines 288-307)\<close>

definition time_generic :: "string \<Rightarrow> string \<Rightarrow> string \<Rightarrow> error + examples" where
  \<comment> \<open>lines 302-307\<close>
  "time_generic bisaya tagalog english =
     bind (english_clean_of english) (\<lambda>ec.
     let english_clean = py_lower ec;
         tag_clean = (if tagalog \<noteq> [] then py_lower tagalog else [])
     in Inr (make_example (bisaya @ '' ko moadto.'') (''I will go '' @ english_clean @ ''.'')
               (if tag_clean \<noteq> [] then ''Pupunta ako '' @ tag_clean @ ''.'' else []),
             make_example (bisaya @ '', moadto ko sa balay.'') (capitalize english_clean @ '', I will go to the house.'')
               (if tag_clean \<noteq> [] then capitalize tag_clean @ '', pupunta ako sa bahay.'' else []),
             make_example (bisaya @ '', moadto ko sa balay sa akong higala.'') (capitalize english_clean @ '', I will go to my friend's house.'')
               (if tag_clean \<noteq> [] then capitalize tag_clean @ '', pupunta ako sa bahay ng aking kaibigan.'' else [])))"

definition time_examples :: "string \<Rightarrow> string \<Rightarrow> string \<Rightarrow> error + examples" where
  "time_examples bisaya tagalog english =
     (let bisaya_lower = py_lower bisaya; english_lower = py_lower english in
      if contains ''karon'' bisaya_lower \<or> contains ''now'' english_lower then
        Inr (make_example ''Karon ko moadto.'' ''I will go now.'' ''Pupunta ako ngayon.'',
             make_example ''Karon nga adlaw, moadto ko.'' ''Today, I will go.'' ''Ngayon, pupunta ako.'',
             make_example ''Karon nga adlaw, moadto ko sa balay sa akong higala.'' ''Today, I will go to my friend's house.'' ''Ngayon, pupunta ako sa bahay ng aking kaibigan.'')
      else if contains ''ugma'' bisaya_lower \<or> contains ''tomorrow'' english_lower then
        Inr (make_example ''Ugma ko moadto.'' ''I will go tomorrow.'' ''Pupunta ako bukas.'',
             make_example ''Ugma, moadto ko sa balay.'' ''Tomorrow, I will go to the house.'' ''Bukas, pupunta ako sa bahay.'',
             make_example ''Ugma, moadto ko sa balay sa akong higala aron magdula.'' ''Tomorrow, I will go to my friend's house to play.'' ''Bukas, pupunta ako sa bahay ng aking kaibigan para maglaro.'')
      else if contains ''gahapon'' bisaya_lower \<or> contains ''yesterday'' english_lower then
        Inr (make_example ''Gahapon ko moadto.'' ''I went yesterday.'' ''Pumunta ako kahapon.'',
             make_example ''Gahapon, nakaon ko sa balay.'' ''Yesterday, I ate at home.'' ''Kahapon, kumain ako sa bahay.'',
             make_example ''Gahapon, nakaon ko sa balay sa akong higala ug nagdula mi.'' ''Yesterday, I ate at my friend's house and we played.'' ''Kahapon, kumain ako sa bahay ng aking kaibigan at naglaro kami.'')
      else time_generic bisaya tagalog english)"

subsection \<open>Questions (lines 309-332)\<close>

definition question_generic :: "string \<Rightarrow> string \<Rightarrow> string \<Rightarrow> error + examples" where
  \<comment> \<open>lines 327-332\<close>
  "question_generic bisaya tagalog english =
     bind (english_clean_of english) (\<lambda>english_clean.
     let tag_clean = (if tagalog \<noteq> [] then tagalog else [])
     in Inr (make_example (bisaya @ ''?'') (english_clean @ ''?'')
               (if tag_clean \<noteq> [] then tag_clean @ ''?'' else []),
             make_example (bisaya @ '' ka moadto?'') (english_clean @ '' are you going?'')
               (if tag_clean \<noteq> [] then tag_clean @ '' ka pupunta?'' else []),
             make_example (bisaya @ '' ka moadto sa balay?'') (english_clean @ '' are you going to the house?'')
               (if tag_clean \<noteq> [] then tag_clean @ '' ka pupunta sa bahay?'' else [])))"

definition question_examples :: "string \<Rightarrow> string \<Rightarrow> string \<Rightarrow> error + examples" where
  "question_examples bisaya tagalog english =
     (let bisaya_lower = py_lower bisaya; english_lower = py_lower english in
      if contains ''asa'' bisaya_lower \<or> contains ''where'' english_lower then
        Inr (make_example ''Asa ka?'' ''Where are you?'' ''Nasaan ka?'',
             make_example ''Asa ka moadto?'' ''Where are you going?'' ''Saan ka pupunta?'',
             make_example ''Asa ka moadto karon nga adlaw?'' ''Where are you going today?'' ''Saan ka pupunta ngayon?'')
      else if contains ''unsa'' bisaya_lower \<or> contains ''what'' english_lower then
        Inr (make_example ''Unsa ni?'' ''What is this?'' ''Ano ito?'',
             make_example ''Unsa ang imong gusto?'' ''What do you want?'' ''Ano ang gusto mo?'',
             make_example ''Unsa ang imong gusto nga mokaon karon?'' ''What do you want to eat now?'' ''Ano ang gusto mong kainin ngayon?'')
      else if contains ''kanus-a'' bisaya_lower \<or> contains ''when'' english_lower then
        Inr (make_example ''Kanus-a ka moadto?'' ''When will you go?'' ''Kailan ka pupunta?'',
             make_example ''Kanus-a ka moadto sa balay?'' ''When will you go to the house?'' ''Kailan ka pupunta sa bahay?'',
             make_example ''Kanus-a ka moadto sa balay sa akong higala?'' ''When will you go to my friend's house?'' ''Kailan ka pupunta sa bahay ng aking kaibigan?'')
      else if contains ''ngano'' bisaya_lower \<or> contains ''why'' english_lower then
        Inr (make_example ''Ngano ka moadto?'' ''Why are you going?'' ''Bakit ka pupunta?'',
             make_example ''Ngano ka moadto sa balay?'' ''Why are you going to the house?'' ''Bakit ka pupunta sa bahay?'',
             make_example ''Ngano ka moadto sa balay sa akong higala karon?'' ''Why are you going to my friend's house now?'' ''Bakit ka pupunta sa bahay ng aking kaibigan ngayon?'')
      else question_generic bisaya tagalog english)"

subsection \<open>Default patterns (lines 334-345) and the cascade\<close>

definition word_examples :: "string \<Rightarrow> string \<Rightarrow> string \<Rightarrow> examples" where
  \<comment> \<open>lines 343-345\<close>
  "word_examples bisaya english_clean tag_clean =
     (make_example (bisaya @ '' na.'') (english_clean @ '' now.'')
        (if tag_clean \<noteq> [] then tag_clean @ '' ngayon.'' else []),
      make_example (''Gusto ko ug '' @ bisaya @ ''.'') (''I want '' @ py_lower english_clean @ ''.'')
        (if tag_clean \<noteq> [] then ''Gusto ko ng '' @ py_lower tag_clean @ ''.'' else []),
      make_example (''Gipalit nako ang '' @ bisaya @ '' sa tindahan.'')
        (''I bought the '' @ py_lower english_clean @ '' at the store.'')
        (if tag_clean \<noteq> [] then ''Binili ko ang '' @ py_lower tag_clean @ '' sa tindahan.'' else []))"

definition default_examples :: "string \<Rightarrow> string \<Rightarrow> string \<Rightarrow> error + examples" where
  "default_examples bisaya tagalog english =
     bind (english_clean_of english) (\<lambda>english_clean.
     let tag_clean = (if tagalog \<noteq> [] then tagalog else []);
         is_phrase = contains '' '' bisaya
     in if is_phrase then Inr (phrase_examples bisaya english_clean tag_clean)
        else Inr (word_examples bisaya english_clean tag_clean))"

definition generate_examples ::
  "string \<Rightarrow> string \<Rightarrow> string \<Rightarrow> string \<Rightarrow> string \<Rightarrow> error + examples" where
  "generate_examples bisaya tagalog english pos category =
     (let bisaya_lower = py_lower bisaya; pos_lower = py_lower pos in
      if pos_lower \<in> set [''greeting'', ''expression'', ''response''] then
        greeting_examples bisaya tagalog english
      else if contains ''verb'' pos_lower \<or>
              list_ex (\<lambda>v. contains v bisaya_lower)
                [''mokaon'', ''matulog'', ''mobasa'', ''mosulat'', ''mopalit''] then
        verb_examples bisaya tagalog english
      else if contains ''noun'' pos_lower then
        noun_examples bisaya tagalog english
      else if contains ''adjective'' pos_lower \<or> contains ''adj'' pos_lower then
        adjective_examples bisaya tagalog english
      else if contains ''number'' pos_lower \<or>
              list_ex (\<lambda>n. contains n bisaya_lower) [''usa'', ''duha'', ''tulo'', ''upat'', ''lima''] then
        number_examples bisaya tagalog english
      else if contains ''time'' pos_lower \<or>
              list_ex (\<lambda>t. contains t bisaya_lower) [''karon'', ''ugma'', ''gahapon'', ''adlaw''] then
        time_examples bisaya tagalog english
      else if contains ''question'' pos_lower \<or>
              list_ex (\<lambda>q. contains q bisaya_lower) [''asa'', ''unsa'', ''kamus-a'', ''ngano''] then
        question_examples bisaya tagalog english
      else default_examples bisaya tagalog english)"

section \<open>The regeneration pipeline (\<open>main\<close> of \<open>regenerate_dataset.py\<close>)\<close>

subsection \<open>Metadata values\<close>

text \<open>
  \<open>load_metadata\<close> returns what \<open>json.load\<close> read: each entry is a dictionary whose
  values are JSON values, not necessarily strings. The scalar JSON values are modelled
  (null, booleans, integers, strings); \<open>truthy\<close> is Python's truth value and
  \<open>py_str\<close> is \<open>str(v)\<close>, which is also what an f-string writes.
\<close>

datatype jval = JNull | JBool bool | JNum int | JStr string

fun truthy :: "jval \<Rightarrow> bool" where
  "truthy JNull = False"
| "truthy (JBool b) = b"
| "truthy (JNum n) = (n \<noteq> 0)"
| "truthy (JStr s) = (s \<noteq> [])"

function str_nat :: "nat \<Rightarrow> string" where
  "str_nat n =
     (if n < 10 then [''0123456789'' ! n]
      else str_nat (n div 10) @ [''0123456789'' ! (n mod 10)])"
  by pat_completeness auto
termination
  by (relation "measure (\<lambda>n. n)") auto

fun py_str :: "jval \<Rightarrow> string" where
  "py_str JNull = ''None''"
| "py_str (JBool b) = (if b then ''True'' else ''False'')"
| "py_str (JNum n) = (if n < 0 then ''-'' @ str_nat (nat (- n)) else str_nat (nat n))"
| "py_str (JStr s) = s"

type_synonym word_data = "string \<rightharpoonup> jval"

definition dict_get :: "word_data \<Rightarrow> string \<Rightarrow> jval \<Rightarrow> jval" where
  \<comment> \<open>\<open>d.get(key, default)\<close>\<close>
  "dict_get d key dflt = (case d key of Some v \<Rightarrow> v | None \<Rightarrow> dflt)"

subsection \<open>The category of an entry\<close>

definition determine_category :: "string \<Rightarrow> string \<Rightarrow> string" where
  "determine_category pos english =
     (let pos_lower = py_lower pos; english_lower = py_lower english in
      if contains ''greeting'' pos_lower then ''Greetings''
      else if contains ''expression'' pos_lower \<or> contains ''response'' pos_lower then
        ''Common Phrases''
      else if contains ''number'' pos_lower then ''Numbers''
      else if contains ''verb'' pos_lower then
        (if list_ex (\<lambda>f. contains f english_lower) [''eat'', ''drink'', ''cook'', ''food'']
         then ''Food & Dining''
         else if list_ex (\<lambda>f. contains f english_lower) [''buy'', ''sell'', ''market'', ''shop'']
         then ''Market/Shopping''
         else ''Actions'')
      else if contains ''noun'' pos_lower then
        (if list_ex (\<lambda>f. contains f english_lower)
              [''father'', ''mother'', ''family'', ''brother'', ''sister'']
         then ''Family''
         else if list_ex (\<lambda>f. contains f english_lower)
              [''food'', ''water'', ''rice'', ''bread'', ''fruit'']
         then ''Food & Dining''
         else if list_ex (\<lambda>f. contains f english_lower) [''house'', ''room'', ''door'', ''window'']
         then ''Home & Living''
         else if list_ex (\<lambda>f. contains f english_lower)
              [''book'', ''school'', ''student'', ''teacher'']
         then ''Education''
         else ''Common Nouns'')
      else if contains ''adjective'' pos_lower then ''Descriptions''
      else if contains ''time'' pos_lower \<or>
              list_ex (\<lambda>t. contains t english_lower)
                [''now'', ''today'', ''tomorrow'', ''yesterday'', ''day'', ''month'', ''year'']
      then ''Time''
      else if contains ''question'' pos_lower then ''Questions''
      else ''Uncategorized'')"

subsection \<open>Calls on metadata values\<close>

text \<open>
  \<open>main\<close> passes the dictionary's values on as they are. \<open>determine_category\<close> starts
  with \<open>pos.lower()\<close> and \<open>english.lower()\<close>, and \<open>generate_examples\<close> with
  \<open>bisaya.lower()\<close>, \<open>english.lower()\<close>, \<open>pos.lower()\<close> and
  \<open>tagalog.lower() if tagalog else ''\<close> (lines 35-38): a value that is not a string has
  no method \<open>lower\<close> and the call raises AttributeError. Every later use of \<open>tagalog\<close> is
  guarded by \<open>if tagalog\<close>, so a false value stands for the empty string.
\<close>

definition call_determine_category :: "jval \<Rightarrow> jval \<Rightarrow> error + string" where
  "call_determine_category pos english =
     (case pos of
        JStr p \<Rightarrow>
          (case english of
             JStr e \<Rightarrow> Inr (determine_category p e)
           | _ \<Rightarrow> Inl AttributeError)
      | _ \<Rightarrow> Inl AttributeError)"

definition call_generate_examples ::
  "jval \<Rightarrow> jval \<Rightarrow> jval \<Rightarrow> jval \<Rightarrow> string \<Rightarrow> error + examples" where
  "call_generate_examples bisaya tagalog english pos category =
     (case bisaya of
        JStr b \<Rightarrow>
          (case english of
             JStr e \<Rightarrow>
               (case pos of
                  JStr p \<Rightarrow>
                    (if truthy tagalog then
                       (case tagalog of
                          JStr t \<Rightarrow> generate_examples b t e p category
                        | _ \<Rightarrow> Inl AttributeError)
                     else generate_examples b [] e p category)
                | _ \<Rightarrow> Inl AttributeError)
           | _ \<Rightarrow> Inl AttributeError)
      | _ \<Rightarrow> Inl AttributeError)"

subsection \<open>The loop over the entries (lines 402-470)\<close>

text \<open>
  Name resolution in the handler of \<open>main\<close>: the names bound in \<open>main\<close> when the handler
  runs (its variables and the module it imported at line 391), then the names of the
  module (the imports of lines 7-11 and the functions of lines 13, 19, 28, 349, 387).
  \<open>make_example\<close> is defined inside \<open>generate_examples\<close> (line 44) and is local to it;
  no builtin has that name either.
\<close>

definition names_in_scope :: "string list" where
  "names_in_scope =
     [''metadata_path'', ''output_path'', ''time'', ''temp_path'', ''metadata'', ''csv_data'',
      ''i'', ''word_data'', ''bisaya'', ''tagalog'', ''english'', ''pronunciation'', ''pos'',
      ''category'', ''e'',
      ''json'', ''csv'', ''os'', ''re'', ''Dict'', ''List'', ''Tuple'',
      ''load_metadata'', ''get_base_form'', ''generate_examples'', ''determine_category'',
      ''main'']"

definition lookup_name :: "string \<Rightarrow> error + unit" where
  "lookup_name name = (if name \<in> set names_in_scope then Inr () else Inl NameError)"

definition except_handler :: "jval \<Rightarrow> jval \<Rightarrow> jval \<Rightarrow> error + examples" where
  \<comment> \<open>the body of \<open>except Exception\<close>, lines 439-444\<close>
  "except_handler bisaya tagalog english =
     (case english of
        JStr e \<Rightarrow>
          bind (english_clean_of e) (\<lambda>eng_clean.
          let tag_clean = (if truthy tagalog then py_str tagalog else [])
          in bind (lookup_name ''make_example'') (\<lambda>_.
             Inr (phrase_examples (py_str bisaya) eng_clean tag_clean)))
      | _ \<Rightarrow> Inl AttributeError)"

definition header :: "jval list" where
  "header = map JStr
     [''Bisaya'', ''Tagalog'', ''English'', ''Part of Speech'', ''Pronunciation'', ''Category'',
      ''Beginner Example (Bisaya)'', ''Beginner English Translation'',
      ''Beginner Tagalog Translation'',
      ''Intermediate Example (Bisaya)'', ''Intermediate English Translation'',
      ''Intermediate Tagalog Translation'',
      ''Advanced Example (Bisaya)'', ''Advanced English Translation'',
      ''Advanced Tagalog Translation'']"

definition dataset_row ::
  "jval \<Rightarrow> jval \<Rightarrow> jval \<Rightarrow> jval \<Rightarrow> jval \<Rightarrow> string \<Rightarrow> examples \<Rightarrow> jval list" where
  \<comment> \<open>lines 447-467\<close>
  "dataset_row bisaya tagalog english pos pronunciation category ex =
     (case ex of
        ((beginner_bisaya, beginner_english, beginner_tagalog),
         (intermediate_bisaya, intermediate_english, intermediate_tagalog),
         (advanced_bisaya, advanced_english, advanced_tagalog)) \<Rightarrow>
          [bisaya, tagalog, english, pos, pronunciation, JStr category,
           JStr beginner_bisaya, JStr beginner_english, JStr beginner_tagalog,
           JStr intermediate_bisaya, JStr intermediate_english, JStr intermediate_tagalog,
           JStr advanced_bisaya, JStr advanced_english, JStr advanced_tagalog])"

definition process_entry :: "word_data \<Rightarrow> error + jval list option" where
  \<comment> \<open>one iteration, lines 423-467: \<open>None\<close> is \<open>continue\<close>, \<open>Some row\<close> the row appended\<close>
  "process_entry word_data =
     (let bisaya = dict_get word_data ''bisaya'' (JStr []);
          tagalog = dict_get word_data ''tagalog'' (JStr []);
          english = dict_get word_data ''english'' (JStr []);
          pronunciation = dict_get word_data ''pronunciation'' (JStr []);
          pos = dict_get word_data ''pos'' (JStr ''Unknown'')
      in if \<not> truthy bisaya \<or> \<not> truthy english then Inr None
         else
           bind (call_determine_category pos english) (\<lambda>category.
           bind (case call_generate_examples bisaya tagalog english pos category of
                   Inr ex \<Rightarrow> Inr ex
                 | Inl e \<Rightarrow> except_handler bisaya tagalog english) (\<lambda>ex.
           Inr (Some (dataset_row bisaya tagalog english pos pronunciation category ex)))))"

fun main_loop :: "word_data list \<Rightarrow> jval list list \<Rightarrow> error + jval list list" where
  \<comment> \<open>the \<open>for\<close> loop: \<open>main_loop metadata csv_data\<close> returns the final \<open>csv_data\<close>\<close>
  "main_loop [] csv_data = Inr csv_data"
| "main_loop (word_data # rest) csv_data =
     (case process_entry word_data of
        Inl e \<Rightarrow> Inl e
      | Inr None \<Rightarrow> main_loop rest csv_data
      | Inr (Some row) \<Rightarrow> main_loop rest (csv_data @ [row]))"

subsection \<open>The file system and the dataset writer (lines 388-395, 472-495)\<close>

text \<open>
  A file holds the rows \<open>csv.writer\<close> wrote. The world of a run is the files, the clock
  (\<open>int(time.time())\<close>) and, for each operation of \<open>os\<close> and \<open>shutil\<close> on the files, whether
  the system refuses it with PermissionError (the target is locked by another program);
  a refused operation changes nothing.
\<close>

datatype fs_op = Remove string | Copy2 string string | Move string string

record world =
  files :: "string \<rightharpoonup> jval list list"
  clock :: nat
  denied :: "fs_op \<Rightarrow> bool"

definition os_remove :: "string \<Rightarrow> world \<Rightarrow> error + world" where
  "os_remove path w =
     (if denied w (Remove path) then Inl PermissionError
      else Inr (w\<lparr>files := (files w)(path := None)\<rparr>))"

definition shutil_copy2 :: "string \<Rightarrow> string \<Rightarrow> world \<Rightarrow> error + world" where
  "shutil_copy2 src dst w =
     (if denied w (Copy2 src dst) then Inl PermissionError
      else Inr (w\<lparr>files := (files w)(dst := files w src)\<rparr>))"

definition shutil_move :: "string \<Rightarrow> string \<Rightarrow> world \<Rightarrow> error + world" where
  "shutil_move src dst w =
     (if denied w (Move src dst) then Inl PermissionError
      else Inr (w\<lparr>files := (files w)(dst := files w src, src := None)\<rparr>))"

definition output_path :: string where
  "output_path = ''lib/vocdataset/bisaya_dataset.csv''"

definition temp_path :: "world \<Rightarrow> string" where
  "temp_path w = ''lib/vocdataset/bisaya_dataset_'' @ str_nat (clock w) @ ''.csv''"

definition backup_path :: string where
  "backup_path = output_path @ ''.backup''"

definition try_replace :: "string \<Rightarrow> nat \<Rightarrow> world \<Rightarrow> (error + string list) \<times> world" where
  \<comment> \<open>the body of \<open>try\<close>, lines 481-491: the lines printed, or the exception, and the
      world as the body left it\<close>
  "try_replace temp entries w =
     (case (if files w output_path \<noteq> None then
              (case (if files w backup_path \<noteq> None then os_remove backup_path w else Inr w) of
                 Inl e \<Rightarrow> (Inl e, w)
               | Inr w1 \<Rightarrow>
                   (case shutil_copy2 output_path backup_path w1 of
                      Inl e \<Rightarrow> (Inl e, w1)
                    | Inr w2 \<Rightarrow> (Inr [''Created backup: '' @ backup_path], w2)))
            else (Inr [], w)) of
        (Inl e, w') \<Rightarrow> (Inl e, w')
      | (Inr printed, w') \<Rightarrow>
          (case shutil_move temp output_path w' of
             Inl e \<Rightarrow> (Inl e, w')
           | Inr w'' \<Rightarrow>
               (Inr (printed @
                  [''Successfully generated '' @ output_path @ '' with '' @ str_nat entries @
                   '' entries!'']), w'')))"

definition write_dataset :: "jval list list \<Rightarrow> world \<Rightarrow> (error + string list) \<times> world" where
  \<comment> \<open>lines 472-495\<close>
  "write_dataset csv_data w =
     (let temp = temp_path w;
          w1 = w\<lparr>files := (files w)(temp \<mapsto> csv_data)\<rparr>
      in case try_replace temp (length csv_data - 1) w1 of
           (Inr printed, w2) \<Rightarrow> (Inr printed, w2)
         | (Inl PermissionError, w2) \<Rightarrow>
             (Inr [''Could not replace '' @ output_path @ '' (file may be open in another program)'',
                   ''New file saved as: '' @ temp,
                   ''   Please close '' @ output_path @ '' and manually replace it with '' @ temp],
              w2)
         | (Inl e, w2) \<Rightarrow> (Inl e, w2))"

definition main :: "word_data list \<Rightarrow> world \<Rightarrow> (error + string list) \<times> world" where
  \<comment> \<open>the run on the loaded metadata: what the writer printed, or the exception that
      ended the run, and the world after it\<close>
  "main metadata w =
     (case main_loop metadata [header] of
        Inl e \<Rightarrow> (Inl e, w)
      | Inr csv_data \<Rightarrow> write_dataset csv_data w)"

section \<open>The embedding trainers (\<open>training/*.py\<close>)\<close>

subsection \<open>Data frames, trained vectors and dictionaries\<close>

text \<open>
  A cell of the data frame that \<open>pd.read_csv\<close> returns is NaN (\<open>None\<close>) where the CSV field
  is empty, and otherwise holds the text \<open>str\<close> gives for it; \<open>str\<close> of NaN is \<open>nan\<close>.
  The trained model is what \<open>Word2Vec\<close> returned: its key-to-vector table \<open>wv\<close> and its
  \<open>vector_size\<close>. Scores and vector components are real numbers. A Python dictionary
  is an association list with distinct keys in insertion order; storing under a key
  that is present replaces the value in place.
\<close>

record df_row =
  Bisaya :: "string option"
  Tagalog :: "string option"
  English :: "string option"
  Pronunciation :: "string option"
  Part_of_Speech :: "string option"
  Category :: "string option"

definition cell_str :: "string option \<Rightarrow> string" where
  \<comment> \<open>\<open>str(row[column])\<close>\<close>
  "cell_str cell = (case cell of None \<Rightarrow> ''nan'' | Some s \<Rightarrow> s)"

definition notna :: "string option \<Rightarrow> bool" where
  \<comment> \<open>\<open>pd.notna(row.get(column))\<close>\<close>
  "notna cell = (cell \<noteq> None)"

type_synonym vec = "real list"

record word2vec =
  wv :: "string \<rightharpoonup> vec"
  vector_size :: nat

definition wv_item :: "(string \<rightharpoonup> vec) \<Rightarrow> string \<Rightarrow> error + vec" where
  \<comment> \<open>\<open>model.wv[w]\<close>: a key that is not in the vocabulary raises KeyError\<close>
  "wv_item kv w = (case kv w of None \<Rightarrow> Inl KeyError | Some v \<Rightarrow> Inr v)"

fun collect :: "('a \<Rightarrow> error + 'b) \<Rightarrow> 'a list \<Rightarrow> error + 'b list" where
  \<comment> \<open>the list comprehension \<open>[f(x) for x in xs]\<close>, stopping at the first exception\<close>
  "collect f [] = Inr []"
| "collect f (x # xs) =
     (case f x of
        Inl e \<Rightarrow> Inl e
      | Inr y \<Rightarrow> (case collect f xs of Inl e \<Rightarrow> Inl e | Inr ys \<Rightarrow> Inr (y # ys)))"

definition np_mean :: "vec list \<Rightarrow> vec" where
  \<comment> \<open>\<open>np.mean(vs, axis=0)\<close> on vectors of one length: the mean of every component\<close>
  "np_mean vs =
     (case vs of
        [] \<Rightarrow> []
      | v # _ \<Rightarrow> map (\<lambda>i. sum_list (map (\<lambda>u. u ! i) vs) / real (length vs)) [0..<length v])"

definition dict_set :: "('k \<times> 'v) list \<Rightarrow> 'k \<Rightarrow> 'v \<Rightarrow> ('k \<times> 'v) list" where
  \<comment> \<open>\<open>d[k] = v\<close>\<close>
  "dict_set d k v = AList.update k v d"

definition dict_of :: "('k \<times> 'v) list \<Rightarrow> ('k \<times> 'v) list" where
  \<comment> \<open>the comprehension \<open>{k: v for k, v in pairs}\<close>\<close>
  "dict_of pairs = foldl (\<lambda>d (k, v). dict_set d k v) [] pairs"

subsection \<open>Embeddings of the dataset words\<close>

definition embedding_of :: "(string \<rightharpoonup> vec) \<Rightarrow> nat \<Rightarrow> string \<Rightarrow> error + vec" where
  \<comment> \<open>"get or create embedding": \<open>train_json_model.py\<close> lines 70-80 with \<open>width = 100\<close>,
      \<open>train_model.py\<close> lines 83-94 with \<open>width = model.vector_size\<close>\<close>
  "embedding_of kv width bisaya_lower =
     (if kv bisaya_lower \<noteq> None then wv_item kv bisaya_lower
      else
        let words = split_ws bisaya_lower in
        bind (collect (wv_item kv) (filter (\<lambda>w. kv w \<noteq> None) words)) (\<lambda>word_embeddings.
        if word_embeddings \<noteq> [] then Inr (np_mean word_embeddings)
        else Inr (replicate width 0)))"

record metadata_entry =
  md_bisaya :: string
  md_tagalog :: string
  md_english :: string
  md_pronunciation :: string
  md_pos :: string
  md_category :: string

definition metadata_of :: "df_row \<Rightarrow> string \<Rightarrow> metadata_entry" where
  \<comment> \<open>\<open>train_json_model.py\<close> lines 84-91\<close>
  "metadata_of row bisaya =
     \<lparr>md_bisaya = bisaya,
      md_tagalog = (if notna (Tagalog row) then strip (cell_str (Tagalog row)) else []),
      md_english = strip (cell_str (English row)),
      md_pronunciation =
        (if notna (Pronunciation row) then strip (cell_str (Pronunciation row)) else []),
      md_pos =
        (if notna (Part_of_Speech row) then strip (cell_str (Part_of_Speech row))
         else ''Unknown''),
      md_category =
        (if notna (Category row) then strip (cell_str (Category row)) else ''Uncategorized'')\<rparr>"

fun embeddings_loop ::
  "(string \<rightharpoonup> vec) \<Rightarrow> df_row list \<Rightarrow> (string \<times> vec) list \<Rightarrow> metadata_entry list \<Rightarrow>
   error + (string \<times> vec) list \<times> metadata_entry list" where
  \<comment> \<open>the loop of \<open>generate_embeddings\<close> in \<open>train_json_model.py\<close>, lines 63-91\<close>
  "embeddings_loop kv [] embeddings metadata_list = Inr (embeddings, metadata_list)"
| "embeddings_loop kv (row # rest) embeddings metadata_list =
     (let bisaya = strip (cell_str (Bisaya row)) in
      if bisaya = [] \<or> bisaya = ''nan'' then embeddings_loop kv rest embeddings metadata_list
      else
        let bisaya_lower = py_lower bisaya in
        case embedding_of kv 100 bisaya_lower of
          Inl e \<Rightarrow> Inl e
        | Inr embedding \<Rightarrow>
            embeddings_loop kv rest (dict_set embeddings bisaya_lower embedding)
              (metadata_list @ [metadata_of row bisaya]))"

definition generate_embeddings ::
  "word2vec \<Rightarrow> df_row list \<Rightarrow> error + (string \<times> vec) list \<times> metadata_entry list" where
  \<comment> \<open>\<open>train_json_model.py\<close>, lines 56-94\<close>
  "generate_embeddings word2vec_model df = embeddings_loop (wv word2vec_model) df [] []"

fun model_embeddings_loop ::
  "word2vec \<Rightarrow> df_row list \<Rightarrow> (string \<times> vec) list \<Rightarrow> (string \<times> metadata_entry) list \<Rightarrow>
   error + (string \<times> vec) list \<times> (string \<times> metadata_entry) list" where
  \<comment> \<open>the loop of \<open>generate_embeddings\<close> in \<open>train_model.py\<close>, lines 72-104: the metadata
      is a dictionary keyed by the lowercased word, and its entries have no category\<close>
  "model_embeddings_loop model [] embeddings metadata = Inr (embeddings, metadata)"
| "model_embeddings_loop model (row # rest) embeddings metadata =
     (let bisaya = strip (cell_str (Bisaya row));
          tagalog = strip (cell_str (Tagalog row));
          english = strip (cell_str (English row));
          pos = strip (cell_str (Part_of_Speech row));
          pronunciation = strip (cell_str (Pronunciation row))
      in if bisaya \<noteq> [] \<and> bisaya \<noteq> ''nan'' then
           let bisaya_lower = py_lower bisaya in
           case embedding_of (wv model) (vector_size model) bisaya_lower of
             Inl e \<Rightarrow> Inl e
           | Inr embedding \<Rightarrow>
               model_embeddings_loop model rest (dict_set embeddings bisaya_lower embedding)
                 (dict_set metadata bisaya_lower
                    \<lparr>md_bisaya = bisaya, md_tagalog = tagalog, md_english = english,
                     md_pronunciation = pronunciation, md_pos = pos, md_category = []\<rparr>)
         else model_embeddings_loop model rest embeddings metadata)"

definition model_generate_embeddings ::
  "word2vec \<Rightarrow> df_row list \<Rightarrow>
   error + (string \<times> vec) list \<times> (string \<times> metadata_entry) list" where
  \<comment> \<open>\<open>generate_embeddings\<close> of \<open>train_model.py\<close>, lines 67-106\<close>
  "model_generate_embeddings model df = model_embeddings_loop model df [] []"

subsection \<open>The similarity tables\<close>

text \<open>
  \<open>cosine_similarity\<close> is scikit-learn's: the definitions take the matrix it returns for
  the list of vectors as a parameter, entry \<open>(i, j)\<close> being the score of rows \<open>i\<close> and \<open>j\<close>.
  \<open>sort(key=..., reverse=True)\<close> is stable and descending in the key, as
  \<open>sort_key\<close> is on the negated score.
\<close>

definition top_neighbours ::
  "(nat \<Rightarrow> nat \<Rightarrow> real) \<Rightarrow> string list \<Rightarrow> nat \<Rightarrow> (string \<times> real) list" where
  \<comment> \<open>the body of the loop over \<open>words\<close>: \<open>train_json_model.py\<close> lines 111-116,
      \<open>train_tflite_model.py\<close> lines 227-232\<close>
  "top_neighbours similarity_matrix words i =
     (let similarities =
            map (\<lambda>j. (words ! j, similarity_matrix i j))
              (filter (\<lambda>j. i \<noteq> j) [0..<length words]);
          sorted_similarities = sort_key (\<lambda>x. - snd x) similarities
      in dict_of (take 10 sorted_similarities))"

definition top_similar_of ::
  "(nat \<Rightarrow> nat \<Rightarrow> real) \<Rightarrow> string list \<Rightarrow> (string \<times> (string \<times> real) list) list" where
  "top_similar_of similarity_matrix words =
     foldl (\<lambda>top_similar i. dict_set top_similar (words ! i)
              (top_neighbours similarity_matrix words i))
       [] [0..<length words]"

definition calculate_similarity_matrix ::
  "(vec list \<Rightarrow> nat \<Rightarrow> nat \<Rightarrow> real) \<Rightarrow> (string \<times> vec) list \<Rightarrow>
   (string \<times> (string \<times> real) list) list" where
  \<comment> \<open>\<open>train_json_model.py\<close>, lines 96-119: \<open>words\<close> are the keys of the dictionary\<close>
  "calculate_similarity_matrix cosine_similarity embeddings_dict =
     (let words = map fst embeddings_dict;
          embeddings = map snd embeddings_dict
      in if length embeddings = 0 then []
         else top_similar_of (cosine_similarity embeddings) words)"

fun vocabulary_rows :: "(string \<rightharpoonup> vec) \<Rightarrow> df_row list \<Rightarrow> (string \<times> vec) list" where
  \<comment> \<open>\<open>train_tflite_model.py\<close> lines 207-216: the pairs appended to \<open>words\<close> and
      \<open>embeddings\<close>, one for every row whose word is in the vocabulary\<close>
  "vocabulary_rows kv [] = []"
| "vocabulary_rows kv (row # rest) =
     (let bisaya = strip (cell_str (Bisaya row)) in
      if bisaya \<noteq> [] \<and> bisaya \<noteq> ''nan'' then
        (case kv (py_lower bisaya) of
           Some v \<Rightarrow> (py_lower bisaya, v) # vocabulary_rows kv rest
         | None \<Rightarrow> vocabulary_rows kv rest)
      else vocabulary_rows kv rest)"

definition tflite_calculate_similarity_matrix ::
  "(vec list \<Rightarrow> nat \<Rightarrow> nat \<Rightarrow> real) \<Rightarrow> word2vec \<Rightarrow> df_row list \<Rightarrow>
   (string \<times> (string \<times> real) list) list" where
  \<comment> \<open>\<open>calculate_similarity_matrix\<close> of \<open>train_tflite_model.py\<close>, lines 203-234: \<open>words\<close>
      has one element for every kept row of the data frame\<close>
  "tflite_calculate_similarity_matrix cosine_similarity word2vec_model df =
     (let words = map fst (vocabulary_rows (wv word2vec_model) df);
          embeddings = map snd (vocabulary_rows (wv word2vec_model) df)
      in if embeddings = [] then []
         else top_similar_of (cosine_similarity embeddings) words)"

subsection \<open>The JSON bundle\<close>

record model_data =
  bundle_embeddings :: "(string \<times> vec) list"
  bundle_metadata :: "metadata_entry list"
  bundle_similarity :: "(string \<times> (string \<times> real) list) list"
  vocab_size :: nat
  embedding_dim :: nat
  version :: string
  format :: string

definition save_model ::
  "(string \<times> vec) list \<Rightarrow> metadata_entry list \<Rightarrow> (string \<times> (string \<times> real) list) list \<Rightarrow>
   model_data" where
  \<comment> \<open>\<open>train_json_model.py\<close>, lines 121-136: the object handed to \<open>json.dump\<close>\<close>
  "save_model embeddings metadata_list similarity =
     \<lparr>bundle_embeddings = embeddings, bundle_metadata = metadata_list,
      bundle_similarity = similarity, vocab_size = length embeddings,
      embedding_dim = 100, version = ''2.0.0'', format = ''json''\<rparr>"

definition json_trainer ::
  "(vec list \<Rightarrow> nat \<Rightarrow> nat \<Rightarrow> real) \<Rightarrow> word2vec \<Rightarrow> df_row list \<Rightarrow> error + model_data" where
  \<comment> \<open>\<open>main\<close> of \<open>train_json_model.py\<close> from the trained model on, lines 168-175\<close>
  "json_trainer cosine_similarity word2vec_model df =
     bind (generate_embeddings word2vec_model df) (\<lambda>(embeddings, metadata_list).
     Inr (save_model embeddings metadata_list
            (calculate_similarity_matrix cosine_similarity embeddings)))"

section \<open>Notions used to state the properties\<close>

definition returns :: "error + 'a \<Rightarrow> bool" where
  \<comment> \<open>the computation ends with a value, not with an exception\<close>
  "returns r = (\<exists>x. r = Inr x)"

text \<open>
  The conditions of the cascade of \<open>generate_examples\<close> on the part of speech (lines 51,
  98, 154, 198, 272, 289, 310), and the words that the verb, number, time and question
  branches look for in the source word (lines 98, 272, 289, 310). The "when" word is
  listed in both spellings, \<open>kamus-a\<close> of line 310 and \<open>kanus-a\<close> of line 319: nothing is
  stated below about a source word that contains either.
\<close>

definition pos_rule_matches :: "string \<Rightarrow> bool" where
  "pos_rule_matches pos =
     (let pos_lower = py_lower pos in
      pos_lower \<in> set [''greeting'', ''expression'', ''response''] \<or>
      contains ''verb'' pos_lower \<or> contains ''noun'' pos_lower \<or>
      contains ''adjective'' pos_lower \<or> contains ''adj'' pos_lower \<or>
      contains ''number'' pos_lower \<or> contains ''time'' pos_lower \<or>
      contains ''question'' pos_lower)"

definition word_rule_matches :: "string \<Rightarrow> bool" where
  "word_rule_matches bisaya =
     list_ex (\<lambda>v. contains v (py_lower bisaya))
       [''mokaon'', ''matulog'', ''mobasa'', ''mosulat'', ''mopalit'',
        ''usa'', ''duha'', ''tulo'', ''upat'', ''lima'',
        ''karon'', ''ugma'', ''gahapon'', ''adlaw'',
        ''asa'', ''unsa'', ''kamus-a'', ''kanus-a'', ''ngano'']"












definition is_str :: "jval \<Rightarrow> bool" where
  "is_str v = (case v of JStr _ \<Rightarrow> True | _ \<Rightarrow> False)"

definition entry_fields :: "word_data \<Rightarrow> jval list" where
  \<comment> \<open>the five values \<open>main\<close> reads from an entry, lines 423-427\<close>
  "entry_fields word_data =
     [dict_get word_data ''bisaya'' (JStr []), dict_get word_data ''tagalog'' (JStr []),
      dict_get word_data ''english'' (JStr []), dict_get word_data ''pos'' (JStr ''Unknown''),
      dict_get word_data ''pronunciation'' (JStr [])]"

definition included :: "word_data \<Rightarrow> bool" where
  \<comment> \<open>the entry passes the test of line 429: its source word and its English
      translation are both true values (for a string: it is not empty)\<close>
  "included word_data =
     (truthy (dict_get word_data ''bisaya'' (JStr [])) \<and>
      truthy (dict_get word_data ''english'' (JStr [])))"

definition str_entry :: "word_data \<Rightarrow> bool" where
  \<comment> \<open>the source word, the English translation and the part of speech are strings,
      and the Tagalog translation is a string or a false value (absent, null)\<close>
  "str_entry word_data =
     (is_str (dict_get word_data ''bisaya'' (JStr [])) \<and>
      is_str (dict_get word_data ''english'' (JStr [])) \<and>
      is_str (dict_get word_data ''pos'' (JStr ''Unknown'')) \<and>
      (is_str (dict_get word_data ''tagalog'' (JStr [])) \<or>
       \<not> truthy (dict_get word_data ''tagalog'' (JStr []))))"

definition new_dataset :: "word_data list \<Rightarrow> world \<Rightarrow> jval list list option" where
  \<comment> \<open>the rows of the dataset a run produced: those of the temporary file where it
      was left in place, and otherwise those of the output file that replaced it\<close>
  "new_dataset metadata w =
     (case main metadata w of
        (Inl e, w') \<Rightarrow> None
      | (Inr printed, w') \<Rightarrow>
          (case files w' (temp_path w) of
             Some rows \<Rightarrow> Some rows
           | None \<Rightarrow> files w' output_path))"

definition kept_row :: "df_row \<Rightarrow> bool" where
  \<comment> \<open>the row is not skipped by \<open>generate_embeddings\<close>: its word is neither blank nor NaN\<close>
  "kept_row row =
     (let bisaya = strip (cell_str (Bisaya row)) in bisaya \<noteq> [] \<and> bisaya \<noteq> ''nan'')"

definition row_key :: "df_row \<Rightarrow> string" where
  \<comment> \<open>the lowercased word of a row, the key of its embedding\<close>
  "row_key row = py_lower (strip (cell_str (Bisaya row)))"

definition spec_embedding :: "(string \<rightharpoonup> vec) \<Rightarrow> nat \<Rightarrow> string \<Rightarrow> vec" where
  \<comment> \<open>the vector the specification gives a word: its own vector if it is in the
      vocabulary, else the mean of the vectors of its sub-words that are, else zeros\<close>
  "spec_embedding vocabulary width word =
     (case vocabulary word of
        Some v \<Rightarrow> v
      | None \<Rightarrow>
          (let sub_vectors = List.map_filter vocabulary (split_ws word) in
           if sub_vectors = [] then replicate width 0 else np_mean sub_vectors))"

section \<open>Properties of the example generator\<close>

lemmas str_eval = py_lower_def lower_char_def upper_char_def startswith_def endswith_def
  is_space_def split_ws_def strip_def capitalize_def

subsection \<open>The generator returns on every input\<close>

lemma returns_Inr: "returns (Inr x)"
  by (simp add: returns_def)

lemma returns_if: "returns a \<Longrightarrow> returns b \<Longrightarrow> returns (if c then a else b)"
  by simp

lemma returns_bind: "returns m \<Longrightarrow> (\<And>x. returns (f x)) \<Longrightarrow> returns (bind m f)"
  by (auto simp: returns_def bind_def)

lemma split_char_nonempty: "split_char sep s \<noteq> []"
  by (induction s) (auto split: list.splits)

lemma py_index_first: "xs \<noteq> [] \<Longrightarrow> py_index xs 0 = Inr (hd xs)"
  by (cases xs) (auto simp: py_index_def)

lemma py_index_last: "xs \<noteq> [] \<Longrightarrow> py_index xs (- 1) = Inr (last xs)"
  by (cases xs rule: rev_cases) (auto simp: py_index_def)

lemma py_index_before_last: "1 < length xs \<Longrightarrow> returns (py_index xs (- 2))"
  by (auto simp: py_index_def returns_def)

lemma english_clean_of_value:
  "english_clean_of english =
     Inr (strip (hd (split_char CHR ''('' (hd (split_char CHR ''/'' english)))))"
  by (simp add: english_clean_of_def bind_def py_index_first split_char_nonempty)

lemma english_clean_of_returns: "returns (english_clean_of english)"
  by (simp add: english_clean_of_value returns_Inr)

lemma last_word_returns: "returns (last_word s)"
proof (cases "1 < length (split_ws s)")
  case True
  then have "split_ws s \<noteq> []" by auto
  then show ?thesis using True by (simp add: last_word_def py_index_last returns_Inr)
next
  case False
  then show ?thesis by (simp add: last_word_def returns_Inr)
qed

lemma past_tense_of_returns: "returns (past_tense_of v)"
proof (cases "1 < length v")
  case True
  then have ne: "v \<noteq> []" by auto
  show ?thesis
    unfolding past_tense_of_def
    using True py_index_before_last[OF True]
    by (auto simp: py_index_last[OF ne] bind_def returns_def)
next
  case False
  then show ?thesis by (simp add: past_tense_of_def returns_Inr)
qed

lemmas returns_intros = returns_if returns_Inr returns_bind english_clean_of_returns
  last_word_returns past_tense_of_returns

lemma maayong_examples_returns: "returns (maayong_examples b t e)"
  unfolding maayong_examples_def Let_def
  by (intro returns_intros) (simp add: py_index_first split_char_nonempty returns_Inr)

lemma greeting_examples_returns: "returns (greeting_examples b t e)"
  unfolding greeting_examples_def greeting_generic_def Let_def
  by (intro returns_intros maayong_examples_returns)

lemma verb_examples_returns: "returns (verb_examples b t e)"
  unfolding verb_examples_def verb_generic_def Let_def
  by (intro returns_intros)

lemma noun_examples_returns: "returns (noun_examples b t e)"
  unfolding noun_examples_def noun_generic_def Let_def
  by (intro returns_intros)

lemma adjective_examples_returns: "returns (adjective_examples b t e)"
  unfolding adjective_examples_def adjective_generic_def Let_def
  by (intro returns_intros)

lemma number_examples_returns: "returns (number_examples b t e)"
  unfolding number_examples_def number_generic_def Let_def
  by (intro returns_intros)

lemma time_examples_returns: "returns (time_examples b t e)"
  unfolding time_examples_def time_generic_def Let_def
  by (intro returns_intros)

lemma question_examples_returns: "returns (question_examples b t e)"
  unfolding question_examples_def question_generic_def Let_def
  by (intro returns_intros)

lemma default_examples_returns: "returns (default_examples b t e)"
  unfolding default_examples_def Let_def
  by (intro returns_intros)

lemma generate_examples_returns: "returns (generate_examples b t e p c)"
  unfolding generate_examples_def Let_def
  by (intro returns_if greeting_examples_returns verb_examples_returns noun_examples_returns
      adjective_examples_returns number_examples_returns time_examples_returns
      question_examples_returns default_examples_returns)

subsection \<open>The hand-authored templates\<close>

text \<open>
  C5. For a greeting, expression or response whose lowercased source word contains
  \<open>salamat\<close> and neither \<open>kumusta\<close> nor \<open>maayong\<close>, \<open>generate_examples\<close> returns exactly
  the three hand-authored "thank you" triples, whatever the translations are.
\<close>

theorem salamat_templates:
  assumes "py_lower pos \<in> set [''greeting'', ''expression'', ''response'']"
    and "\<not> contains ''kumusta'' (py_lower bisaya)"
    and "\<not> contains ''maayong'' (py_lower bisaya)"
    and "contains ''salamat'' (py_lower bisaya)"
  shows "generate_examples bisaya tagalog english pos category =
    Inr ((''Salamat.'', ''Thank you.'', ''Salamat.''),
         (''Daghang salamat sa imong tabang.'', ''Thank you very much for your help.'',
          ''Maraming salamat sa iyong tulong.''),
         (''Daghang salamat kaayo sa tanan nga imong nahimo.'',
          ''Thank you very much for everything you did.'',
          ''Maraming salamat sa lahat ng iyong ginawa.''))"
  using assms
  by (simp add: generate_examples_def greeting_examples_def make_example_def Let_def)

theorem salamat_templates_witness:
  "generate_examples ''Daghang Salamat'' ''Salamat'' ''thank you'' ''Expression''
     ''Common Phrases'' =
    Inr ((''Salamat.'', ''Thank you.'', ''Salamat.''),
         (''Daghang salamat sa imong tabang.'', ''Thank you very much for your help.'',
          ''Maraming salamat sa iyong tulong.''),
         (''Daghang salamat kaayo sa tanan nga imong nahimo.'',
          ''Thank you very much for everything you did.'',
          ''Maraming salamat sa lahat ng iyong ginawa.''))"
  by (rule salamat_templates) (simp_all add: str_eval)

subsection \<open>The default branch\<close>

text \<open>
  C7, as amended. \<open>generate_examples\<close> returns three triples and raises nothing on every
  input. The cascade tests the source word as well as the part of speech: the verb,
  number, time and question branches are also taken when the lowercased source word
  contains one of the words they look for. When the part of speech matches no branch
  and the source word contains none of those words, \<open>generate_examples\<close> reaches the
  default branch and returns its three triples: the phrase templates when the source
  word has a space, the word templates otherwise. Nothing is stated here about a source
  word that contains the word for "when" in either of the two spellings of the source.
\<close>

theorem default_branch_reached:
  "(\<exists>ex. generate_examples bisaya tagalog english pos category = Inr ex) \<and>
   (\<not> pos_rule_matches pos \<and> \<not> word_rule_matches bisaya \<longrightarrow>
     (\<exists>english_clean. english_clean_of english = Inr english_clean \<and>
        generate_examples bisaya tagalog english pos category =
          Inr (if contains '' '' bisaya then phrase_examples bisaya english_clean tagalog
               else word_examples bisaya english_clean tagalog)))"
proof
  show "\<exists>ex. generate_examples bisaya tagalog english pos category = Inr ex"
    using generate_examples_returns[of bisaya tagalog english pos category]
    by (simp add: returns_def)
next
  show "\<not> pos_rule_matches pos \<and> \<not> word_rule_matches bisaya \<longrightarrow>
     (\<exists>english_clean. english_clean_of english = Inr english_clean \<and>
        generate_examples bisaya tagalog english pos category =
          Inr (if contains '' '' bisaya then phrase_examples bisaya english_clean tagalog
               else word_examples bisaya english_clean tagalog))"
    by (simp add: generate_examples_def default_examples_def pos_rule_matches_def
        word_rule_matches_def Let_def english_clean_of_value bind_def)
qed

theorem default_branch_reached_witness:
  "(\<exists>ex. generate_examples ''karon'' ''ngayon'' ''now'' ''Unknown'' ''Time'' = Inr ex) \<and>
   (\<exists>english_clean. english_clean_of ''I / me'' = Inr english_clean \<and>
      generate_examples ''ako'' ''ako'' ''I / me'' ''Unknown'' ''Uncategorized'' =
        Inr (if contains '' '' ''ako'' then phrase_examples ''ako'' english_clean ''ako''
             else word_examples ''ako'' english_clean ''ako''))"
proof -
  have "\<not> pos_rule_matches ''Unknown'' \<and> \<not> word_rule_matches ''ako''"
    by (simp add: pos_rule_matches_def word_rule_matches_def str_eval Let_def)
  with default_branch_reached[of "''karon''" "''ngayon''" "''now''" "''Unknown''" "''Time''"]
    default_branch_reached[of "''ako''" "''ako''" "''I / me''" "''Unknown''" "''Uncategorized''"]
  show ?thesis by blast
qed

text \<open>
  C7, as stated, fails: the part of speech \<open>Unknown\<close> matches no branch, yet the word
  \<open>karon\<close> is given the hand-written templates of the time branch, not the default ones.
\<close>

theorem pos_fallthrough_counterexample:
  "\<not> pos_rule_matches ''Unknown'' \<and>
   generate_examples ''karon'' ''ngayon'' ''now'' ''Unknown'' ''Time'' =
     Inr ((''Karon ko moadto.'', ''I will go now.'', ''Pupunta ako ngayon.''),
          (''Karon nga adlaw, moadto ko.'', ''Today, I will go.'', ''Ngayon, pupunta ako.''),
          (''Karon nga adlaw, moadto ko sa balay sa akong higala.'',
           ''Today, I will go to my friend's house.'',
           ''Ngayon, pupunta ako sa bahay ng aking kaibigan.'')) \<and>
   default_examples ''karon'' ''ngayon'' ''now'' =
     Inr ((''karon na.'', ''now now.'', ''ngayon ngayon.''),
          (''Gusto ko ug karon.'', ''I want now.'', ''Gusto ko ng ngayon.''),
          (''Gipalit nako ang karon sa tindahan.'', ''I bought the now at the store.'',
           ''Binili ko ang ngayon sa tindahan.''))"
  by (simp add: pos_rule_matches_def generate_examples_def time_examples_def
      default_examples_def word_examples_def make_example_def english_clean_of_value
      bind_def Let_def str_eval)

subsection \<open>Entries without a Tagalog translation\<close>






















section \<open>Properties of the regeneration pipeline\<close>

subsection \<open>One entry, and the loop\<close>

lemma lookup_make_example: "lookup_name ''make_example'' = Inl NameError"
  by (simp add: lookup_name_def names_in_scope_def)

lemma except_handler_raises: "\<exists>err. except_handler bisaya tagalog english = Inl err"
  by (cases english) (simp_all add: except_handler_def english_clean_of_value bind_def
        lookup_make_example)

lemma except_handler_name_error:
  "except_handler bisaya tagalog (JStr e) = Inl NameError"
  by (simp add: except_handler_def english_clean_of_value bind_def lookup_make_example)

lemma dataset_row_shape:
  "length (dataset_row b t e p pr c ex) = 15 \<and> take 5 (dataset_row b t e p pr c ex) = [b, t, e, p, pr]"
  by (cases ex) (auto simp: dataset_row_def)

lemma process_entry_skipped:
  "\<not> truthy (dict_get wd ''bisaya'' (JStr [])) \<or> \<not> truthy (dict_get wd ''english'' (JStr []))
   \<Longrightarrow> process_entry wd = Inr None"
  by (auto simp: process_entry_def Let_def)

lemma process_entry_str:
  assumes "dict_get wd ''bisaya'' (JStr []) = JStr b" and "b \<noteq> []"
    and "dict_get wd ''english'' (JStr []) = JStr e" and "e \<noteq> []"
    and "dict_get wd ''tagalog'' (JStr []) = JStr t"
    and "dict_get wd ''pos'' (JStr ''Unknown'') = JStr p"
    and "generate_examples b t e p (determine_category p e) = Inr ex"
  shows "process_entry wd =
     Inr (Some (dataset_row (JStr b) (JStr t) (JStr e) (JStr p)
        (dict_get wd ''pronunciation'' (JStr [])) (determine_category p e) ex))"
  using assms
  by (cases "t = []")
     (simp_all add: process_entry_def Let_def call_determine_category_def
        call_generate_examples_def bind_def)

lemma process_entry_no_tagalog:
  assumes "dict_get wd ''bisaya'' (JStr []) = JStr b" and "b \<noteq> []"
    and "dict_get wd ''english'' (JStr []) = JStr e" and "e \<noteq> []"
    and "\<not> truthy (dict_get wd ''tagalog'' (JStr []))"
    and "dict_get wd ''pos'' (JStr ''Unknown'') = JStr p"
    and "generate_examples b [] e p (determine_category p e) = Inr ex"
  shows "process_entry wd =
     Inr (Some (dataset_row (JStr b) (dict_get wd ''tagalog'' (JStr [])) (JStr e) (JStr p)
        (dict_get wd ''pronunciation'' (JStr [])) (determine_category p e) ex))"
  using assms
  by (simp add: process_entry_def Let_def call_determine_category_def
        call_generate_examples_def bind_def)

lemma process_entry_row:
  "process_entry wd = Inr (Some row) \<Longrightarrow>
   truthy (dict_get wd ''bisaya'' (JStr [])) \<and> truthy (dict_get wd ''english'' (JStr [])) \<and>
   length row = 15 \<and> take 5 row = entry_fields wd"
  by (auto simp: process_entry_def Let_def bind_def entry_fields_def dataset_row_shape
      split: if_splits sum.splits)

lemma process_entry_None_iff: "process_entry wd = Inr None \<longleftrightarrow> \<not> included wd"
  by (auto simp: process_entry_def Let_def bind_def included_def split: sum.splits)

lemma main_loop_rows:
  "main_loop metadata csv_data = Inr out \<Longrightarrow>
   \<exists>rows. out = csv_data @ rows \<and>
     list_all2 (\<lambda>wd row. process_entry wd = Inr (Some row)) (filter included metadata) rows"
proof (induction metadata arbitrary: csv_data)
  case Nil
  then show ?case by simp
next
  case (Cons wd metadata)
  show ?case
  proof (cases "process_entry wd")
    case (Inl err)
    with Cons.prems show ?thesis by simp
  next
    case (Inr r)
    show ?thesis
    proof (cases r)
      case None
      with Inr have "\<not> included wd" by (simp add: process_entry_None_iff)
      with None Inr Cons show ?thesis by simp
    next
      case (Some row)
      with Inr have inc: "included wd" using process_entry_None_iff[of wd] by auto
      from Some Inr Cons.prems have "main_loop metadata (csv_data @ [row]) = Inr out" by simp
      from Cons.IH[OF this] Inr Some inc show ?thesis by auto
    qed
  qed
qed

lemma included_process:
  assumes "included wd" and "str_entry wd"
  shows "\<exists>row. process_entry wd = Inr (Some row)"
proof -
  from assms(2) obtain b e p where f:
    "dict_get wd ''bisaya'' (JStr []) = JStr b" "dict_get wd ''english'' (JStr []) = JStr e"
    "dict_get wd ''pos'' (JStr ''Unknown'') = JStr p"
    by (auto simp: str_entry_def is_str_def split: jval.splits)
  from assms(1) f have ne: "b \<noteq> []" "e \<noteq> []" by (auto simp: included_def)
  show ?thesis
  proof (cases "truthy (dict_get wd ''tagalog'' (JStr []))")
    case True
    with assms(2) obtain t where t: "dict_get wd ''tagalog'' (JStr []) = JStr t"
      by (auto simp: str_entry_def is_str_def split: jval.splits)
    obtain ex where "generate_examples b t e p (determine_category p e) = Inr ex"
      using generate_examples_returns[of b t e p "determine_category p e"]
      unfolding returns_def by blast
    from process_entry_str[OF f(1) ne(1) f(2) ne(2) t f(3) this] show ?thesis by blast
  next
    case False
    obtain ex where "generate_examples b [] e p (determine_category p e) = Inr ex"
      using generate_examples_returns[of b "[]" e p "determine_category p e"]
      unfolding returns_def by blast
    from process_entry_no_tagalog[OF f(1) ne(1) f(2) ne(2) False f(3) this]
    show ?thesis by blast
  qed
qed

lemma main_loop_returns:
  "\<forall>wd\<in>set metadata. included wd \<longrightarrow> str_entry wd \<Longrightarrow>
   \<exists>out. main_loop metadata csv_data = Inr out"
proof (induction metadata arbitrary: csv_data)
  case Nil
  then show ?case by simp
next
  case (Cons wd metadata)
  show ?case
  proof (cases "included wd")
    case True
    with Cons.prems have "str_entry wd" by simp
    from included_process[OF True this] Cons show ?thesis by auto
  next
    case False
    then have "process_entry wd = Inr None" by (simp add: process_entry_None_iff)
    with Cons show ?thesis by auto
  qed
qed

lemma main_loop_str_returns:
  "\<forall>wd\<in>set metadata. str_entry wd \<Longrightarrow> \<exists>out. main_loop metadata csv_data = Inr out"
  by (rule main_loop_returns) simp

lemma list_all2_right_member:
  "list_all2 P xs ys \<Longrightarrow> y \<in> set ys \<Longrightarrow> \<exists>x\<in>set xs. P x y"
  by (induction rule: list_all2_induct) auto

text \<open>
  C4, as amended. Whenever the run completes, the dataset is the header followed by one
  row for each entry whose source word and English translation are both true values
  (for a string: not empty), in the order of the metadata, and no row for any other
  entry: the rows correspond one to one to the entries that pass the test of line 429,
  each row starting with the five fields of its entry, so every written row has a
  non-empty source word and a non-empty English translation and an entry with an empty
  English translation is excluded. The run completes whenever, in every entry that
  passes the test, the source word, the English translation and the part of speech are
  strings and the Tagalog translation is a string or a false value.
\<close>

theorem rows_iff_nonempty_words:
  "(\<forall>out. main_loop metadata [header] = Inr out \<longrightarrow>
      (\<exists>rows. out = header # rows \<and>
         list_all2 (\<lambda>wd row. length row = 15 \<and> take 5 row = entry_fields wd)
           (filter included metadata) rows \<and>
         (\<forall>row\<in>set rows. truthy (row ! 0) \<and> truthy (row ! 2)))) \<and>
   ((\<forall>wd\<in>set metadata. included wd \<longrightarrow> str_entry wd) \<longrightarrow>
      returns (main_loop metadata [header]))"
proof (intro conjI allI impI)
  fix out
  assume out: "main_loop metadata [header] = Inr out"
  from main_loop_rows[OF this] obtain rows where rows: "out = [header] @ rows"
    "list_all2 (\<lambda>wd row. process_entry wd = Inr (Some row)) (filter included metadata) rows"
    by blast
  have shape: "list_all2 (\<lambda>wd row. length row = 15 \<and> take 5 row = entry_fields wd)
       (filter included metadata) rows"
    using rows(2) by (rule list_all2_mono) (auto dest: process_entry_row)
  have "truthy (row ! 0) \<and> truthy (row ! 2)" if "row \<in> set rows" for row
  proof -
    from list_all2_right_member[OF shape that]
    obtain wd where wd: "wd \<in> set (filter included metadata)"
      "length row = 15" "take 5 row = entry_fields wd"
      by blast
    then have "included wd" by simp
    moreover have "row ! 0 = take 5 row ! 0" "row ! 2 = take 5 row ! 2" by simp_all
    ultimately show ?thesis using wd(3)
      by (simp add: entry_fields_def included_def)
  qed
  with rows(1) shape
  show "\<exists>rows. out = header # rows \<and>
         list_all2 (\<lambda>wd row. length row = 15 \<and> take 5 row = entry_fields wd)
           (filter included metadata) rows \<and>
         (\<forall>row\<in>set rows. truthy (row ! 0) \<and> truthy (row ! 2))"
    by auto
next
  assume "\<forall>wd\<in>set metadata. included wd \<longrightarrow> str_entry wd"
  from main_loop_returns[OF this] show "returns (main_loop metadata [header])"
    by (simp add: returns_def)
qed

theorem rows_iff_nonempty_words_witness:
  "\<exists>rows. main_loop
      [[''bisaya'' \<mapsto> JStr ''Salamat'', ''english'' \<mapsto> JStr ''thank you'',
        ''pos'' \<mapsto> JStr ''Expression''],
       [''bisaya'' \<mapsto> JStr ''balay'', ''tagalog'' \<mapsto> JStr ''bahay'', ''english'' \<mapsto> JStr []],
       [''bisaya'' \<mapsto> JStr ''tubig'', ''tagalog'' \<mapsto> JNull, ''english'' \<mapsto> JStr ''water'',
        ''pos'' \<mapsto> JStr ''Noun''],
       [''bisaya'' \<mapsto> JStr ''lima'', ''english'' \<mapsto> JNull, ''pos'' \<mapsto> JNum 5],
       [''english'' \<mapsto> JStr ''water'']]
      [header] = Inr (header # rows) \<and>
     length rows = 2 \<and>
     take 5 (rows ! 0) =
       [JStr ''Salamat'', JStr [], JStr ''thank you'', JStr ''Expression'', JStr []] \<and>
     take 5 (rows ! 1) = [JStr ''tubig'', JNull, JStr ''water'', JStr ''Noun'', JStr []]"
proof -
  let ?md = "[[''bisaya'' \<mapsto> JStr ''Salamat'', ''english'' \<mapsto> JStr ''thank you'',
        ''pos'' \<mapsto> JStr ''Expression''],
       [''bisaya'' \<mapsto> JStr ''balay'', ''tagalog'' \<mapsto> JStr ''bahay'', ''english'' \<mapsto> JStr []],
       [''bisaya'' \<mapsto> JStr ''tubig'', ''tagalog'' \<mapsto> JNull, ''english'' \<mapsto> JStr ''water'',
        ''pos'' \<mapsto> JStr ''Noun''],
       [''bisaya'' \<mapsto> JStr ''lima'', ''english'' \<mapsto> JNull, ''pos'' \<mapsto> JNum 5],
       [''english'' \<mapsto> JStr ''water'']]"
  have typed: "\<forall>wd\<in>set ?md. included wd \<longrightarrow> str_entry wd"
    by (simp add: included_def str_entry_def dict_get_def is_str_def)
  have kept: "filter included ?md =
      [[''bisaya'' \<mapsto> JStr ''Salamat'', ''english'' \<mapsto> JStr ''thank you'',
        ''pos'' \<mapsto> JStr ''Expression''],
       [''bisaya'' \<mapsto> JStr ''tubig'', ''tagalog'' \<mapsto> JNull, ''english'' \<mapsto> JStr ''water'',
        ''pos'' \<mapsto> JStr ''Noun'']]"
    by (simp add: included_def dict_get_def)
  from rows_iff_nonempty_words[of ?md] typed
  obtain out where out: "main_loop ?md [header] = Inr out"
    unfolding returns_def by blast
  with rows_iff_nonempty_words[of ?md]
  obtain rows where "out = header # rows"
    "list_all2 (\<lambda>wd row. length row = 15 \<and> take 5 row = entry_fields wd)
       (filter included ?md) rows"
    by blast
  with out show ?thesis
    unfolding kept
    by (auto simp: list_all2_Cons1 entry_fields_def dict_get_def)
qed

text \<open>
  C4, as stated, fails: an entry whose source word and English translation are both
  non-empty but whose part of speech is null contributes no row. \<open>determine_category\<close>
  is called outside the \<open>try\<close> (line 433) and raises AttributeError at \<open>pos.lower()\<close>, which
  ends the run.
\<close>

theorem nonempty_words_no_row_counterexample:
  "included [''bisaya'' \<mapsto> JStr ''balay'', ''english'' \<mapsto> JStr ''house'', ''pos'' \<mapsto> JNull] \<and>
   main_loop
     [[''bisaya'' \<mapsto> JStr ''balay'', ''english'' \<mapsto> JStr ''house'', ''pos'' \<mapsto> JNull]]
     [header] = Inl AttributeError \<and>
   main
     [[''bisaya'' \<mapsto> JStr ''balay'', ''english'' \<mapsto> JStr ''house'', ''pos'' \<mapsto> JNull]]
     \<lparr>files = Map.empty, clock = 0, denied = (\<lambda>op. False)\<rparr> =
     (Inl AttributeError, \<lparr>files = Map.empty, clock = 0, denied = (\<lambda>op. False)\<rparr>)"
  by (simp add: included_def main_def process_entry_def dict_get_def
      call_determine_category_def bind_def Let_def)

lemma main_loop_append:
  "main_loop (xs @ ys) csv_data =
     (case main_loop xs csv_data of Inl e \<Rightarrow> Inl e | Inr csv \<Rightarrow> main_loop ys csv)"
  by (induction xs arbitrary: csv_data) (auto split: sum.splits option.splits)

text \<open>
  C1 fails on the code. When \<open>generate_examples\<close> raises for an entry, the handler of
  \<open>main\<close> calls \<open>make_example\<close>, which is local to \<open>generate_examples\<close>: the handler
  itself raises NameError, the entry gets no fallback row, the loop stops there (the
  entries after it are not processed) and the run ends with that exception before
  anything is written.
\<close>

theorem handler_raises_name_error:
  assumes "truthy (dict_get wd ''bisaya'' (JStr []))"
    and "truthy (dict_get wd ''english'' (JStr []))"
    and "call_determine_category (dict_get wd ''pos'' (JStr ''Unknown''))
           (dict_get wd ''english'' (JStr [])) = Inr category"
    and "call_generate_examples (dict_get wd ''bisaya'' (JStr []))
           (dict_get wd ''tagalog'' (JStr [])) (dict_get wd ''english'' (JStr []))
           (dict_get wd ''pos'' (JStr ''Unknown'')) category = Inl err"
    and "returns (main_loop before [header])"
  shows "process_entry wd = Inl NameError \<and>
         main_loop (before @ wd # rest) [header] = Inl NameError \<and>
         main (before @ wd # rest) w = (Inl NameError, w)"
proof -
  from assms(3) obtain e where e: "dict_get wd ''english'' (JStr []) = JStr e"
    by (auto simp: call_determine_category_def split: jval.splits)
  have "process_entry wd = Inl NameError"
    using assms(1-4)
    by (simp add: process_entry_def Let_def bind_def e except_handler_name_error)
  then show ?thesis
    using assms(5) by (auto simp: main_def main_loop_append returns_def)
qed

theorem handler_raises_name_error_witness:
  "process_entry [''bisaya'' \<mapsto> JStr ''lima'', ''tagalog'' \<mapsto> JNum 5,
       ''english'' \<mapsto> JStr ''five'', ''pos'' \<mapsto> JStr ''Number''] = Inl NameError \<and>
   main_loop
     ([[''bisaya'' \<mapsto> JStr ''balay'', ''tagalog'' \<mapsto> JStr ''bahay'',
        ''english'' \<mapsto> JStr ''house'', ''pos'' \<mapsto> JStr ''Noun'']] @
      [''bisaya'' \<mapsto> JStr ''lima'', ''tagalog'' \<mapsto> JNum 5,
       ''english'' \<mapsto> JStr ''five'', ''pos'' \<mapsto> JStr ''Number''] #
      [[''bisaya'' \<mapsto> JStr ''Salamat'', ''tagalog'' \<mapsto> JStr ''Salamat'',
        ''english'' \<mapsto> JStr ''thank you'', ''pos'' \<mapsto> JStr ''Expression'']])
     [header] = Inl NameError \<and>
   main
     ([[''bisaya'' \<mapsto> JStr ''balay'', ''tagalog'' \<mapsto> JStr ''bahay'',
        ''english'' \<mapsto> JStr ''house'', ''pos'' \<mapsto> JStr ''Noun'']] @
      [''bisaya'' \<mapsto> JStr ''lima'', ''tagalog'' \<mapsto> JNum 5,
       ''english'' \<mapsto> JStr ''five'', ''pos'' \<mapsto> JStr ''Number''] #
      [[''bisaya'' \<mapsto> JStr ''Salamat'', ''tagalog'' \<mapsto> JStr ''Salamat'',
        ''english'' \<mapsto> JStr ''thank you'', ''pos'' \<mapsto> JStr ''Expression'']])
     \<lparr>files = Map.empty, clock = 0, denied = (\<lambda>op. False)\<rparr> =
     (Inl NameError, \<lparr>files = Map.empty, clock = 0, denied = (\<lambda>op. False)\<rparr>)"
proof (rule handler_raises_name_error[where category = "''Numbers''" and err = AttributeError])
  have "\<forall>wd\<in>set [[''bisaya'' \<mapsto> JStr ''balay'', ''tagalog'' \<mapsto> JStr ''bahay'',
        ''english'' \<mapsto> JStr ''house'', ''pos'' \<mapsto> JStr ''Noun'']]. str_entry wd"
    by (simp add: str_entry_def entry_fields_def dict_get_def is_str_def)
  from main_loop_str_returns[OF this]
  show "returns (main_loop [[''bisaya'' \<mapsto> JStr ''balay'', ''tagalog'' \<mapsto> JStr ''bahay'',
        ''english'' \<mapsto> JStr ''house'', ''pos'' \<mapsto> JStr ''Noun'']] [header])"
    by (simp add: returns_def)
qed (simp_all add: dict_get_def call_determine_category_def call_generate_examples_def
      determine_category_def Let_def str_eval)



subsection \<open>The dataset writer\<close>

lemma paths_distinct:
  "temp_path w \<noteq> output_path" "temp_path w \<noteq> backup_path" "output_path \<noteq> backup_path"
  "output_path \<noteq> temp_path w" "backup_path \<noteq> temp_path w" "backup_path \<noteq> output_path"
  by (simp_all add: temp_path_def output_path_def backup_path_def)

lemmas fs_defs = write_dataset_def try_replace_def os_remove_def shutil_copy2_def
  shutil_move_def Let_def

lemma write_dataset_kept:
  assumes "denied w (Move (temp_path w) output_path)"
  shows "\<exists>printed w'. write_dataset csv_data w = (Inr printed, w') \<and>
     files w' (temp_path w) = Some csv_data \<and>
     files w' output_path = files w output_path \<and>
     (''New file saved as: '' @ temp_path w) \<in> set printed"
  using assms by (auto simp: fs_defs paths_distinct)

lemma write_dataset_replaced:
  assumes "\<forall>op. \<not> denied w op"
  shows "\<exists>printed w'. write_dataset csv_data w = (Inr printed, w') \<and>
     files w' output_path = Some csv_data \<and>
     files w' (temp_path w) = None \<and>
     files w' backup_path =
       (if files w output_path = None then files w backup_path else files w output_path)"
  using assms by (auto simp: fs_defs paths_distinct)

lemma write_dataset_new_rows:
  "\<exists>printed w'. write_dataset csv_data w = (Inr printed, w') \<and>
     (case files w' (temp_path w) of Some rows \<Rightarrow> Some rows | None \<Rightarrow> files w' output_path) =
       Some csv_data"
  by (auto simp: fs_defs paths_distinct)

text \<open>
  C3. The rows are written to the temporary file first. When replacing the output file
  is refused with PermissionError, the run still ends normally, the temporary file
  holds the new rows, its path is printed, and the output file is what it was. When
  nothing is refused, the output file holds the new rows, the temporary file is gone
  and the backup file holds the previous output (where there was one).
\<close>

theorem locked_output_keeps_temp:
  assumes "main_loop metadata [header] = Inr csv_data"
  shows "(denied w (Move (temp_path w) output_path) \<longrightarrow>
           (\<exists>printed w'. main metadata w = (Inr printed, w') \<and>
              files w' (temp_path w) = Some csv_data \<and>
              files w' output_path = files w output_path \<and>
              (''New file saved as: '' @ temp_path w) \<in> set printed)) \<and>
         ((\<forall>op. \<not> denied w op) \<longrightarrow>
           (\<exists>printed w'. main metadata w = (Inr printed, w') \<and>
              files w' output_path = Some csv_data \<and>
              files w' (temp_path w) = None \<and>
              files w' backup_path =
                (if files w output_path = None then files w backup_path
                 else files w output_path)))"
  using assms write_dataset_kept[of w csv_data] write_dataset_replaced[of w csv_data]
  by (simp add: main_def)

theorem locked_output_keeps_temp_witness:
  "\<exists>csv_data.
     main_loop [[''bisaya'' \<mapsto> JStr ''Salamat'', ''english'' \<mapsto> JStr ''thank you'',
       ''pos'' \<mapsto> JStr ''Expression'']] [header] = Inr csv_data \<and>
     (\<exists>printed w'.
        main [[''bisaya'' \<mapsto> JStr ''Salamat'', ''english'' \<mapsto> JStr ''thank you'',
          ''pos'' \<mapsto> JStr ''Expression'']]
          \<lparr>files = [output_path \<mapsto> [[JStr ''old'']]], clock = 5,
            denied = (\<lambda>op. op = Move ''lib/vocdataset/bisaya_dataset_5.csv'' output_path)\<rparr> =
          (Inr printed, w') \<and>
        files w' ''lib/vocdataset/bisaya_dataset_5.csv'' = Some csv_data \<and>
        files w' output_path = Some [[JStr ''old'']] \<and>
        ''New file saved as: lib/vocdataset/bisaya_dataset_5.csv'' \<in> set printed) \<and>
     (\<exists>printed w'.
        main [[''bisaya'' \<mapsto> JStr ''Salamat'', ''english'' \<mapsto> JStr ''thank you'',
          ''pos'' \<mapsto> JStr ''Expression'']]
          \<lparr>files = [output_path \<mapsto> [[JStr ''old'']]], clock = 5, denied = (\<lambda>op. False)\<rparr> =
          (Inr printed, w') \<and>
        files w' output_path = Some csv_data \<and>
        files w' ''lib/vocdataset/bisaya_dataset_5.csv'' = None \<and>
        files w' backup_path = Some [[JStr ''old'']])"
proof -
  let ?md = "[[''bisaya'' \<mapsto> JStr ''Salamat'', ''english'' \<mapsto> JStr ''thank you'',
       ''pos'' \<mapsto> JStr ''Expression'']]"
  have "\<forall>wd\<in>set ?md. str_entry wd"
    by (simp add: str_entry_def entry_fields_def dict_get_def is_str_def)
  from main_loop_str_returns[OF this] obtain csv_data
    where csv: "main_loop ?md [header] = Inr csv_data" by blast
  from locked_output_keeps_temp[OF csv,
      of "\<lparr>files = [output_path \<mapsto> [[JStr ''old'']]], clock = 5,
            denied = (\<lambda>op. op = Move ''lib/vocdataset/bisaya_dataset_5.csv'' output_path)\<rparr>"]
    locked_output_keeps_temp[OF csv,
      of "\<lparr>files = [output_path \<mapsto> [[JStr ''old'']]], clock = 5, denied = (\<lambda>op. False)\<rparr>"]
    csv
  show ?thesis by (simp add: temp_path_def)
qed

text \<open>
  The rows of the dataset a run produces depend on the metadata only: two runs on the
  same metadata, whatever the clock, the files present and the operations refused,
  produce the same rows (or end with the same exception); only the name of the
  temporary file depends on the clock.
\<close>

lemma rows_independent_of_world: "new_dataset metadata w1 = new_dataset metadata w2"
proof (cases "main_loop metadata [header]")
  case (Inl e)
  then show ?thesis by (simp add: new_dataset_def main_def)
next
  case (Inr csv_data)
  have "new_dataset metadata w = Some csv_data" for w
    using write_dataset_new_rows[of csv_data w] Inr
    by (auto simp: new_dataset_def main_def)
  then show ?thesis by simp
qed

section \<open>Properties of the embedding trainers\<close>

subsection \<open>Embeddings\<close>

lemma collect_known:
  "collect (wv_item kv) (filter (\<lambda>w. kv w \<noteq> None) ws) = Inr (List.map_filter kv ws)"
  by (induction ws) (auto simp: wv_item_def List.map_filter_simps split: option.splits)

lemma embedding_of_value: "embedding_of kv width w = Inr (spec_embedding kv width w)"
  unfolding embedding_of_def collect_known
  by (auto simp: spec_embedding_def bind_def wv_item_def Let_def split: option.splits)

lemma dict_set_keys: "fst ` set (dict_set d k v) = insert k (fst ` set d)"
  by (simp add: dict_set_def dom_update)

lemma dict_set_distinct: "distinct (map fst d) \<Longrightarrow> distinct (map fst (dict_set d k v))"
  by (simp add: dict_set_def distinct_update)

lemma dict_set_map_of: "map_of (dict_set d k v) = (map_of d)(k \<mapsto> v)"
  by (simp add: dict_set_def update_conv')

lemma embeddings_loop_result:
  "\<exists>embeddings' metadata_list'.
     embeddings_loop kv df embeddings metadata_list = Inr (embeddings', metadata_list') \<and>
     fst ` set embeddings' = fst ` set embeddings \<union> row_key ` {row \<in> set df. kept_row row} \<and>
     (distinct (map fst embeddings) \<longrightarrow> distinct (map fst embeddings')) \<and>
     (\<forall>w. map_of embeddings' w =
        (if w \<in> row_key ` {row \<in> set df. kept_row row} then Some (spec_embedding kv 100 w)
         else map_of embeddings w)) \<and>
     metadata_list' = metadata_list @
        map (\<lambda>row. metadata_of row (strip (cell_str (Bisaya row)))) (filter kept_row df)"
proof (induction df arbitrary: embeddings metadata_list)
  case Nil
  then show ?case by simp
next
  case (Cons row df)
  show ?case
  proof (cases "kept_row row")
    case False
    then have "embeddings_loop kv (row # df) embeddings metadata_list =
        embeddings_loop kv df embeddings metadata_list"
      by (auto simp: kept_row_def Let_def)
    moreover have "{r \<in> set (row # df). kept_row r} = {r \<in> set df. kept_row r}"
      using False by auto
    ultimately show ?thesis
      using Cons.IH[of embeddings metadata_list] False by simp
  next
    case True
    let ?e = "dict_set embeddings (row_key row) (spec_embedding kv 100 (row_key row))"
    let ?m = "metadata_list @ [metadata_of row (strip (cell_str (Bisaya row)))]"
    have step: "embeddings_loop kv (row # df) embeddings metadata_list = embeddings_loop kv df ?e ?m"
      using True by (simp add: kept_row_def Let_def embedding_of_value row_key_def)
    have keys: "{r \<in> set (row # df). kept_row r} = insert row {r \<in> set df. kept_row r}"
      using True by auto
    from Cons.IH[of ?e ?m] obtain e' m' where r:
      "embeddings_loop kv df ?e ?m = Inr (e', m')"
      "fst ` set e' = fst ` set ?e \<union> row_key ` {row \<in> set df. kept_row row}"
      "distinct (map fst ?e) \<longrightarrow> distinct (map fst e')"
      "\<forall>w. map_of e' w =
        (if w \<in> row_key ` {row \<in> set df. kept_row row} then Some (spec_embedding kv 100 w)
         else map_of ?e w)"
      "m' = ?m @ map (\<lambda>row. metadata_of row (strip (cell_str (Bisaya row)))) (filter kept_row df)"
      by blast
    show ?thesis
      unfolding step keys
      using r True
      by (auto simp: dict_set_keys dict_set_distinct dict_set_map_of)
  qed
qed

lemma model_embeddings_loop_result:
  "\<exists>embeddings' metadata'.
     model_embeddings_loop model df embeddings metadata = Inr (embeddings', metadata') \<and>
     (\<forall>w. map_of embeddings' w =
        (if w \<in> row_key ` {row \<in> set df. kept_row row}
         then Some (spec_embedding (wv model) (vector_size model) w)
         else map_of embeddings w))"
proof (induction df arbitrary: embeddings metadata)
  case Nil
  then show ?case by simp
next
  case (Cons row df)
  show ?case
  proof (cases "kept_row row")
    case False
    then have "model_embeddings_loop model (row # df) embeddings metadata =
        model_embeddings_loop model df embeddings metadata"
      by (auto simp: kept_row_def Let_def)
    moreover have "{r \<in> set (row # df). kept_row r} = {r \<in> set df. kept_row r}"
      using False by auto
    ultimately show ?thesis
      using Cons.IH[of embeddings metadata] by simp
  next
    case True
    let ?e = "dict_set embeddings (row_key row)
                (spec_embedding (wv model) (vector_size model) (row_key row))"
    let ?m = "dict_set metadata (row_key row)
                \<lparr>md_bisaya = strip (cell_str (Bisaya row)),
                 md_tagalog = strip (cell_str (Tagalog row)),
                 md_english = strip (cell_str (English row)),
                 md_pronunciation = strip (cell_str (Pronunciation row)),
                 md_pos = strip (cell_str (Part_of_Speech row)), md_category = []\<rparr>"
    have step: "model_embeddings_loop model (row # df) embeddings metadata =
        model_embeddings_loop model df ?e ?m"
      using True by (simp add: kept_row_def Let_def embedding_of_value row_key_def)
    have keys: "{r \<in> set (row # df). kept_row r} = insert row {r \<in> set df. kept_row r}"
      using True by auto
    from Cons.IH[of ?e ?m] show ?thesis
      unfolding step keys by (auto simp: dict_set_map_of)
  qed
qed

text \<open>
  C8. For every model and data frame, \<open>generate_embeddings\<close> (of the JSON trainer
  and of \<open>train_model.py\<close>) returns: a word that is not in the vocabulary raises
  nothing. The vector stored for the lowercased word of every kept row is the word's own
  vector when it is in the vocabulary, else the component-wise mean of the vectors of
  its sub-words that are, else the zero vector of length 100 (of the model's
  \<open>vector_size\<close> in \<open>train_model.py\<close>, which \<open>train_embeddings\<close> sets to 100).
\<close>

theorem embedding_lookup_never_fails:
  "(\<exists>embeddings metadata_list.
      generate_embeddings model df = Inr (embeddings, metadata_list) \<and>
      (\<forall>row\<in>set df. kept_row row \<longrightarrow>
         map_of embeddings (row_key row) = Some (spec_embedding (wv model) 100 (row_key row)))) \<and>
   (\<exists>embeddings metadata.
      model_generate_embeddings model df = Inr (embeddings, metadata) \<and>
      (\<forall>row\<in>set df. kept_row row \<longrightarrow>
         map_of embeddings (row_key row) =
           Some (spec_embedding (wv model) (vector_size model) (row_key row))))"
proof
  from embeddings_loop_result[of "wv model" df "[]" "[]"]
  show "\<exists>embeddings metadata_list.
      generate_embeddings model df = Inr (embeddings, metadata_list) \<and>
      (\<forall>row\<in>set df. kept_row row \<longrightarrow>
         map_of embeddings (row_key row) = Some (spec_embedding (wv model) 100 (row_key row)))"
    unfolding generate_embeddings_def by fastforce
next
  from model_embeddings_loop_result[of model df "[]" "[]"]
  show "\<exists>embeddings metadata.
      model_generate_embeddings model df = Inr (embeddings, metadata) \<and>
      (\<forall>row\<in>set df. kept_row row \<longrightarrow>
         map_of embeddings (row_key row) =
           Some (spec_embedding (wv model) (vector_size model) (row_key row)))"
    unfolding model_generate_embeddings_def by fastforce
qed

theorem embedding_lookup_never_fails_witness:
  "(\<exists>embeddings metadata_list.
      generate_embeddings \<lparr>wv = [''balay'' \<mapsto> [1, 0], ''dako'' \<mapsto> [0, 2]], vector_size = 100\<rparr>
        [\<lparr>Bisaya = Some ''Balay'', Tagalog = None, English = Some ''house'',
          Pronunciation = None, Part_of_Speech = None, Category = None\<rparr>,
         \<lparr>Bisaya = Some '' balay dako '', Tagalog = None, English = Some ''big house'',
          Pronunciation = None, Part_of_Speech = None, Category = None\<rparr>,
         \<lparr>Bisaya = Some ''tubig'', Tagalog = None, English = Some ''water'',
          Pronunciation = None, Part_of_Speech = None, Category = None\<rparr>] =
        Inr (embeddings, metadata_list) \<and>
      map_of embeddings ''balay'' = Some [1, 0] \<and>
      map_of embeddings ''balay dako'' = Some [1 / 2, 1] \<and>
      map_of embeddings ''tubig'' = Some (replicate 100 0)) \<and>
   (\<exists>embeddings metadata.
      model_generate_embeddings \<lparr>wv = [''balay'' \<mapsto> [1, 0], ''dako'' \<mapsto> [0, 2]], vector_size = 100\<rparr>
        [\<lparr>Bisaya = Some ''Balay'', Tagalog = None, English = Some ''house'',
          Pronunciation = None, Part_of_Speech = None, Category = None\<rparr>,
         \<lparr>Bisaya = Some '' balay dako '', Tagalog = None, English = Some ''big house'',
          Pronunciation = None, Part_of_Speech = None, Category = None\<rparr>,
         \<lparr>Bisaya = Some ''tubig'', Tagalog = None, English = Some ''water'',
          Pronunciation = None, Part_of_Speech = None, Category = None\<rparr>] =
        Inr (embeddings, metadata) \<and>
      map_of embeddings ''balay'' = Some [1, 0] \<and>
      map_of embeddings ''balay dako'' = Some [1 / 2, 1] \<and>
      map_of embeddings ''tubig'' = Some (replicate 100 0))"
  using embedding_lookup_never_fails[of
      "\<lparr>wv = [''balay'' \<mapsto> [1, 0], ''dako'' \<mapsto> [0, 2]], vector_size = 100\<rparr>"
      "[\<lparr>Bisaya = Some ''Balay'', Tagalog = None, English = Some ''house'',
          Pronunciation = None, Part_of_Speech = None, Category = None\<rparr>,
         \<lparr>Bisaya = Some '' balay dako '', Tagalog = None, English = Some ''big house'',
          Pronunciation = None, Part_of_Speech = None, Category = None\<rparr>,
         \<lparr>Bisaya = Some ''tubig'', Tagalog = None, English = Some ''water'',
          Pronunciation = None, Part_of_Speech = None, Category = None\<rparr>]"]
  by (simp add: kept_row_def row_key_def cell_str_def str_eval spec_embedding_def
      List.map_filter_simps np_mean_def Let_def)

text \<open>
  C9. In the bundle of the JSON trainer, \<open>vocab_size\<close> is the number of keys of the
  embeddings, which are the distinct lowercased words of the kept rows (a row is kept
  when its word is neither blank nor NaN), each key once: a later row with the same
  lowercased word stores its vector under the key of the earlier one. The metadata
  list has one entry for every kept row. So \<open>vocab_size\<close> is at most the length of the metadata, and
  strictly smaller exactly when two kept rows share their lowercased word.
\<close>

theorem vocab_size_counts_distinct_words:
  "\<exists>bundle. json_trainer cosine_similarity model df = Inr bundle \<and>
     vocab_size bundle = length (bundle_embeddings bundle) \<and>
     distinct (map fst (bundle_embeddings bundle)) \<and>
     set (map fst (bundle_embeddings bundle)) = set (map row_key (filter kept_row df)) \<and>
     vocab_size bundle = card (set (map row_key (filter kept_row df))) \<and>
     (\<forall>row\<in>set df. kept_row row \<longrightarrow>
        map_of (bundle_embeddings bundle) (row_key row) =
          Some (spec_embedding (wv model) 100 (row_key row))) \<and>
     map md_bisaya (bundle_metadata bundle) =
       map (\<lambda>row. strip (cell_str (Bisaya row))) (filter kept_row df) \<and>
     vocab_size bundle \<le> length (bundle_metadata bundle) \<and>
     (vocab_size bundle < length (bundle_metadata bundle) \<longleftrightarrow>
        \<not> distinct (map row_key (filter kept_row df)))"
proof -
  define ks where "ks = map row_key (filter kept_row df)"
  have keys: "row_key ` {row \<in> set df. kept_row row} = set ks" by (auto simp: ks_def)
  from embeddings_loop_result[of "wv model" df "[]" "[]"]
  obtain e m where r: "generate_embeddings model df = Inr (e, m)"
    "fst ` set e = set ks" "distinct (map fst e)"
    "m = map (\<lambda>row. metadata_of row (strip (cell_str (Bisaya row)))) (filter kept_row df)"
    "\<forall>w. map_of e w = (if w \<in> set ks then Some (spec_embedding (wv model) 100 w) else None)"
    unfolding generate_embeddings_def keys by auto
  have vecs: "\<forall>row\<in>set df. kept_row row \<longrightarrow>
      map_of e (row_key row) = Some (spec_embedding (wv model) 100 (row_key row))"
    using r(5) by (auto simp: ks_def)
  have len: "length e = card (set ks)"
    using r(2,3) distinct_card[of "map fst e"] by simp
  have mlen: "length m = length ks" using r(4) by (simp add: ks_def)
  have le: "card (set ks) \<le> length ks" by (rule card_length)
  have strict: "(card (set ks) < length ks) = (\<not> distinct ks)"
  proof (cases "distinct ks")
    case True
    then show ?thesis by (simp add: distinct_card)
  next
    case False
    then have "card (set ks) \<noteq> length ks" using card_distinct by blast
    with le False show ?thesis by simp
  qed
  have names: "map md_bisaya m = map (\<lambda>row. strip (cell_str (Bisaya row))) (filter kept_row df)"
    using r(4) by (simp add: metadata_of_def comp_def)
  have "json_trainer cosine_similarity model df =
      Inr (save_model e m (calculate_similarity_matrix cosine_similarity e))"
    using r(1) by (simp add: json_trainer_def bind_def)
  moreover have "set (map fst e) = set ks" using r(2) by simp
  ultimately show ?thesis
    unfolding ks_def[symmetric]
    using r(3) len mlen le strict names vecs
    by (simp add: save_model_def)
qed

lemma sample_rows_kept: "filter kept_row [\<lparr>Bisaya = Some ''Balay'', Tagalog = Some ''Bahay'', English = Some ''house'',
         Pronunciation = None, Part_of_Speech = Some ''Noun'', Category = None\<rparr>,
        \<lparr>Bisaya = Some ''balay'', Tagalog = Some ''bahay'', English = Some ''home'',
         Pronunciation = None, Part_of_Speech = Some ''Noun'', Category = None\<rparr>] = [\<lparr>Bisaya = Some ''Balay'', Tagalog = Some ''Bahay'', English = Some ''house'',
         Pronunciation = None, Part_of_Speech = Some ''Noun'', Category = None\<rparr>,
        \<lparr>Bisaya = Some ''balay'', Tagalog = Some ''bahay'', English = Some ''home'',
         Pronunciation = None, Part_of_Speech = Some ''Noun'', Category = None\<rparr>]"
    by (simp add: kept_row_def cell_str_def str_eval)

lemma sample_rows_keys: "map row_key [\<lparr>Bisaya = Some ''Balay'', Tagalog = Some ''Bahay'', English = Some ''house'',
         Pronunciation = None, Part_of_Speech = Some ''Noun'', Category = None\<rparr>,
        \<lparr>Bisaya = Some ''balay'', Tagalog = Some ''bahay'', English = Some ''home'',
         Pronunciation = None, Part_of_Speech = Some ''Noun'', Category = None\<rparr>] = [''balay'', ''balay'']"
    by (simp add: row_key_def cell_str_def str_eval)

lemma sample_rows_names: "map (\<lambda>row. strip (cell_str (Bisaya row))) [\<lparr>Bisaya = Some ''Balay'', Tagalog = Some ''Bahay'', English = Some ''house'',
         Pronunciation = None, Part_of_Speech = Some ''Noun'', Category = None\<rparr>,
        \<lparr>Bisaya = Some ''balay'', Tagalog = Some ''bahay'', English = Some ''home'',
         Pronunciation = None, Part_of_Speech = Some ''Noun'', Category = None\<rparr>] = [''Balay'', ''balay'']"
    by (simp add: cell_str_def str_eval)

theorem vocab_size_counts_distinct_words_witness:
  "\<exists>bundle.
     json_trainer (\<lambda>vs i j. 1) \<lparr>wv = [''balay'' \<mapsto> [1, 0]], vector_size = 100\<rparr>
       [\<lparr>Bisaya = Some ''Balay'', Tagalog = Some ''Bahay'', English = Some ''house'',
         Pronunciation = None, Part_of_Speech = Some ''Noun'', Category = None\<rparr>,
        \<lparr>Bisaya = Some ''balay'', Tagalog = Some ''bahay'', English = Some ''home'',
         Pronunciation = None, Part_of_Speech = Some ''Noun'', Category = None\<rparr>] = Inr bundle \<and>
     vocab_size bundle = 1 \<and>
     map md_bisaya (bundle_metadata bundle) = [''Balay'', ''balay''] \<and>
     vocab_size bundle < length (bundle_metadata bundle)"
proof -
  let ?df = "[\<lparr>Bisaya = Some ''Balay'', Tagalog = Some ''Bahay'', English = Some ''house'',
         Pronunciation = None, Part_of_Speech = Some ''Noun'', Category = None\<rparr>,
        \<lparr>Bisaya = Some ''balay'', Tagalog = Some ''bahay'', English = Some ''home'',
         Pronunciation = None, Part_of_Speech = Some ''Noun'', Category = None\<rparr>]"
  from vocab_size_counts_distinct_words[of "\<lambda>vs i j. 1"
      "\<lparr>wv = [''balay'' \<mapsto> [1, 0]], vector_size = 100\<rparr>" ?df]
  obtain b where b:
    "json_trainer (\<lambda>vs i j. 1) \<lparr>wv = [''balay'' \<mapsto> [1, 0]], vector_size = 100\<rparr> ?df = Inr b"
    "vocab_size b = card (set (map row_key (filter kept_row ?df)))"
    "map md_bisaya (bundle_metadata b) =
       map (\<lambda>row. strip (cell_str (Bisaya row))) (filter kept_row ?df)"
    by blast
  have "vocab_size b = 1" unfolding b(2) sample_rows_kept sample_rows_keys by simp
  moreover have "map md_bisaya (bundle_metadata b) = [''Balay'', ''balay'']"
    unfolding b(3) sample_rows_kept sample_rows_names by (rule refl)
  moreover from this have "length (bundle_metadata b) = 2"
    using length_map[of md_bisaya "bundle_metadata b"] by simp
  ultimately show ?thesis using b(1) by (intro exI[of _ b]) simp
qed

subsection \<open>Similarity tables\<close>

text \<open>
  The table of the JSON trainer is built over the keys of a dictionary, which are
  distinct: every list of neighbours has at most 10 entries, leaves out the word itself
  and is in descending order of score.
\<close>

lemma dict_set_fresh: "k \<notin> fst ` set d \<Longrightarrow> dict_set d k v = d @ [(k, v)]"
  unfolding dict_set_def by (induction d) auto

lemma foldl_dict_set_fresh:
  "distinct (map key xs) \<Longrightarrow> key ` set xs \<inter> fst ` set d = {} \<Longrightarrow>
   foldl (\<lambda>d x. dict_set d (key x) (val x)) d xs = d @ map (\<lambda>x. (key x, val x)) xs"
proof (induction xs arbitrary: d)
  case Nil
  then show ?case by simp
next
  case (Cons x xs)
  then have fresh: "key x \<notin> fst ` set d" by auto
  have "key ` set xs \<inter> fst ` set (d @ [(key x, val x)]) = {}"
    using Cons.prems by auto
  with Cons show ?case by (simp add: dict_set_fresh[OF fresh])
qed

lemma dict_of_distinct: "distinct (map fst pairs) \<Longrightarrow> dict_of pairs = pairs"
  using foldl_dict_set_fresh[of fst pairs "[]" snd]
  by (simp add: dict_of_def case_prod_unfold)

lemma top_similar_of_distinct:
  assumes "distinct words"
  shows "top_similar_of sm words =
     map (\<lambda>i. (words ! i, top_neighbours sm words i)) [0..<length words]"
proof -
  have "map ((!) words) [0..<length words] = words" by (rule map_nth)
  then have "distinct (map ((!) words) [0..<length words])" using assms by simp
  from foldl_dict_set_fresh[OF this, of "[]" "top_neighbours sm words"]
  show ?thesis by (simp add: top_similar_of_def)
qed

lemma distinct_map_insort_key:
  "distinct (map g (insort_key f x xs)) = distinct (map g (x # xs))"
  by (induction xs) (auto simp: set_insort_key)

lemma distinct_map_sort_key: "distinct (map g (sort_key f xs)) = distinct (map g xs)"
  by (induction xs) (auto simp: distinct_map_insort_key)

lemma top_neighbours_properties:
  assumes "distinct words" and "i < length words"
  shows "length (top_neighbours sm words i) \<le> 10 \<and>
     words ! i \<notin> fst ` set (top_neighbours sm words i) \<and>
     sorted_wrt (\<lambda>a b. b \<le> a) (map snd (top_neighbours sm words i))"
proof -
  define sims where "sims = map (\<lambda>j. (words ! j, sm i j)) (filter (\<lambda>j. i \<noteq> j) [0..<length words])"
  define srt where "srt = sort_key (\<lambda>x. - snd x) sims"
  have keys: "map fst sims = map ((!) words) (filter (\<lambda>j. i \<noteq> j) [0..<length words])"
    by (simp add: sims_def comp_def)
  have "inj_on ((!) words) (set (filter (\<lambda>j. i \<noteq> j) [0..<length words]))"
    using assms(1) by (auto simp: inj_on_def nth_eq_iff_index_eq)
  then have d: "distinct (map fst sims)"
    unfolding keys by (simp add: distinct_map)
  have notself: "words ! i \<notin> fst ` set sims"
    using assms by (auto simp: sims_def nth_eq_iff_index_eq)
  have d10: "distinct (map fst (take 10 srt))"
    using d by (simp add: srt_def take_map[symmetric] distinct_map_sort_key del: take_map)
  have eq: "top_neighbours sm words i = take 10 srt"
    by (simp add: top_neighbours_def Let_def sims_def[symmetric] srt_def[symmetric]
        dict_of_distinct[OF d10])
  have "sorted (map (\<lambda>x. - snd x) srt)" unfolding srt_def by (rule sorted_sort_key)
  then have "sorted_wrt (\<lambda>a b. b \<le> a) (map snd srt)"
    by (simp add: sorted_wrt_map)
  then have "sorted_wrt (\<lambda>a b. b \<le> a) (take 10 (map snd srt))"
    by (rule sorted_wrt_take)
  moreover have "set (take 10 srt) \<subseteq> set sims"
    using set_take_subset[of 10 srt] by (simp add: srt_def)
  ultimately show ?thesis
    using notself unfolding eq by (auto simp: take_map)
qed

lemma json_table_neighbours:
  assumes "distinct (map fst embeddings_dict)"
    and "(word, neighbours) \<in> set (calculate_similarity_matrix cosine_similarity embeddings_dict)"
  shows "length neighbours \<le> 10 \<and> word \<notin> fst ` set neighbours \<and>
     sorted_wrt (\<lambda>a b. b \<le> a) (map snd neighbours)"
proof -
  let ?words = "map fst embeddings_dict"
  let ?sm = "cosine_similarity (map snd embeddings_dict)"
  from assms(2) have "(word, neighbours) \<in> set (top_similar_of ?sm ?words)"
    by (auto simp: calculate_similarity_matrix_def Let_def split: if_splits)
  then obtain i where "i < length ?words" "word = ?words ! i"
    "neighbours = top_neighbours ?sm ?words i"
    unfolding top_similar_of_distinct[OF assms(1)] by auto
  with top_neighbours_properties[OF assms(1), of i ?sm] show ?thesis by simp
qed

text \<open>
  C6 fails on the code of \<open>train_tflite_model.py\<close>. There \<open>words\<close> has one element for
  every kept row, and the test \<open>i != j\<close> compares positions, not words: when two rows
  share their lowercased word, the word is listed among its own neighbours.
\<close>

theorem tflite_table_includes_word_itself:
  "tflite_calculate_similarity_matrix cosine_similarity
     \<lparr>wv = [''balay'' \<mapsto> v], vector_size = 100\<rparr>
     [\<lparr>Bisaya = Some ''Balay'', Tagalog = Some ''Bahay'', English = Some ''house'',
       Pronunciation = None, Part_of_Speech = Some ''Noun'', Category = None\<rparr>,
      \<lparr>Bisaya = Some ''balay'', Tagalog = Some ''bahay'', English = Some ''home'',
       Pronunciation = None, Part_of_Speech = Some ''Noun'', Category = None\<rparr>] =
   [(''balay'', [(''balay'', cosine_similarity [v, v] 1 0)])]"
  by (simp add: tflite_calculate_similarity_matrix_def top_similar_of_def top_neighbours_def
      dict_of_def dict_set_def cell_str_def str_eval Let_def)

theorem tflite_table_includes_word_itself_witness:
  "map_of (tflite_calculate_similarity_matrix (\<lambda>vs i j. 1)
     \<lparr>wv = [''balay'' \<mapsto> [1, 0]], vector_size = 100\<rparr>
     [\<lparr>Bisaya = Some ''Balay'', Tagalog = Some ''Bahay'', English = Some ''house'',
       Pronunciation = None, Part_of_Speech = Some ''Noun'', Category = None\<rparr>,
      \<lparr>Bisaya = Some ''balay'', Tagalog = Some ''bahay'', English = Some ''home'',
       Pronunciation = None, Part_of_Speech = Some ''Noun'', Category = None\<rparr>]) ''balay'' =
   Some [(''balay'', 1)]"
  using tflite_table_includes_word_itself[of "\<lambda>vs i j. 1" "[1, 0]"]
  by simp

end
